theory Spec2Isabelle
  imports Complex_Main "HOL-Library.AList"
begin

text \<open>
  A shallow embedding of the client-side core of the POSM catalogue: the model validator
  (\<^verbatim>\<open>validateModel\<close>), the rate limiter (\<^verbatim>\<open>rateLimit\<close>), the session store
  (\<^verbatim>\<open>login\<close>, \<^verbatim>\<open>getSession\<close>), the draft store (\<^verbatim>\<open>saveDraft\<close>, \<^verbatim>\<open>loadDraft\<close>,
  \<^verbatim>\<open>getAllDraftIds\<close>) and the in-memory cache (\<^verbatim>\<open>CacheService\<close>).
  Every function takes the state it reads (the browser's \<^verbatim>\<open>localStorage\<close>, the cache's
  map, the clock reading) as an argument and returns the state it leaves; every
  \<^verbatim>\<open>throw\<close> is a value \<open>Inl e\<close>.
\<close>

section \<open>JavaScript values\<close>

text \<open>
  The values \<^verbatim>\<open>JSON.parse\<close> can return, with \<^verbatim>\<open>undefined\<close> and \<^verbatim>\<open>NaN\<close> (which
  property reads and arithmetic produce). Finite numbers are exact rationals; the
  infinities are left out. An object is its list of own properties.
\<close>

datatype jsval =
    JUndefined
  | JNull
  | JBool bool
  | JNum rat
  | JNaN
  | JStr string
  | JArr "jsval list"
  | JObj "(string \<times> jsval) list"

datatype js_error =
    TypeError
  | SyntaxError
  | SecurityError
  | QuotaExceededError
  | Error string

datatype js_type = T_undefined | T_object | T_boolean | T_number | T_string

fun typeof :: "jsval \<Rightarrow> js_type" where
  "typeof JUndefined = T_undefined"
| "typeof JNull = T_object"
| "typeof (JBool b) = T_boolean"
| "typeof (JNum n) = T_number"
| "typeof JNaN = T_number"
| "typeof (JStr s) = T_string"
| "typeof (JArr xs) = T_object"
| "typeof (JObj kvs) = T_object"

text \<open>Truthiness, as \<^verbatim>\<open>!v\<close>, \<^verbatim>\<open>&&\<close> and \<^verbatim>\<open>if (v)\<close> read it.\<close>

fun truthy :: "jsval \<Rightarrow> bool" where
  "truthy JUndefined = False"
| "truthy JNull = False"
| "truthy (JBool b) = b"
| "truthy (JNum n) = (n \<noteq> 0)"
| "truthy JNaN = False"
| "truthy (JStr s) = (s \<noteq> [])"
| "truthy (JArr xs) = True"
| "truthy (JObj kvs) = True"

text \<open>
  A property read \<^verbatim>\<open>v.p\<close>: a \<^verbatim>\<open>TypeError\<close> on \<^verbatim>\<open>undefined\<close> and \<^verbatim>\<open>null\<close>, the own
  property of an object, and \<^verbatim>\<open>undefined\<close> otherwise. None of the names the program
  reads (\<^verbatim>\<open>id\<close>, \<^verbatim>\<open>name\<close>, \<^verbatim>\<open>image\<close>, \<^verbatim>\<open>url\<close>, \<^verbatim>\<open>width\<close>, \<^verbatim>\<open>height\<close>,
  \<^verbatim>\<open>posmMarkers\<close>, \<^verbatim>\<open>position\<close>, \<^verbatim>\<open>x\<close>, \<^verbatim>\<open>y\<close>, \<^verbatim>\<open>attempts\<close>, \<^verbatim>\<open>resetTime\<close>,
  \<^verbatim>\<open>expiresAt\<close>, \<^verbatim>\<open>isAuthenticated\<close>) is a property of a prototype of a primitive or of
  an array.
\<close>

fun jget :: "jsval \<Rightarrow> string \<Rightarrow> js_error + jsval" where
  "jget JUndefined p = Inl TypeError"
| "jget JNull p = Inl TypeError"
| "jget (JObj kvs) p = Inr (case map_of kvs p of Some v \<Rightarrow> v | None \<Rightarrow> JUndefined)"
| "jget v p = Inr JUndefined"

text \<open>
  The value of a result of type \<^verbatim>\<open>T | null\<close>: \<open>None\<close> is \<^verbatim>\<open>null\<close>.
\<close>

definition nullable :: "jsval option \<Rightarrow> jsval" where
  "nullable r = (case r of None \<Rightarrow> JNull | Some v \<Rightarrow> v)"

text \<open>Sequencing of steps that may throw: the first \<open>Inl\<close> ends the computation.\<close>

definition bind_err :: "'e + 'a \<Rightarrow> ('a \<Rightarrow> 'e + 'b) \<Rightarrow> 'e + 'b" where
  "bind_err m f = (case m of Inl e \<Rightarrow> Inl e | Inr x \<Rightarrow> f x)"

section \<open>The JavaScript runtime\<close>

text \<open>
  What the program calls and the repository does not define is a parameter of the model:
  \<^verbatim>\<open>JSON.parse\<close> (\<open>None\<close> when it throws its \<^verbatim>\<open>SyntaxError\<close>), \<^verbatim>\<open>JSON.stringify\<close>,
  \<^verbatim>\<open>new Date(v).getTime()\<close> (\<open>None\<close> is \<^verbatim>\<open>NaN\<close>, an invalid date),
  \<^verbatim>\<open>new Date(t).toISOString()\<close>, and the conversions between strings and numbers.
\<close>

record runtime =
  JSON_parse :: "string \<Rightarrow> jsval option"
  JSON_stringify :: "jsval \<Rightarrow> string"
  Date_getTime :: "jsval \<Rightarrow> rat option"
  Date_toISOString :: "rat \<Rightarrow> string"
  StringToNumber :: "string \<Rightarrow> rat option"
  NumberToString :: "rat \<Rightarrow> string"

fun join :: "string \<Rightarrow> string list \<Rightarrow> string" where
  "join sep [] = []"
| "join sep [s] = s"
| "join sep (s # t # ss) = s @ sep @ join sep (t # ss)"

text \<open>
  \<^verbatim>\<open>ToString\<close>: an array is the comma-joined strings of its elements (\<^verbatim>\<open>null\<close> and
  \<^verbatim>\<open>undefined\<close> elements are empty), a plain object is \<^verbatim>\<open>[object Object]\<close>.
\<close>

fun ToString :: "runtime \<Rightarrow> jsval \<Rightarrow> string" where
  "ToString rt JUndefined = ''undefined''"
| "ToString rt JNull = ''null''"
| "ToString rt (JBool b) = (if b then ''true'' else ''false'')"
| "ToString rt (JNum n) = NumberToString rt n"
| "ToString rt JNaN = ''NaN''"
| "ToString rt (JStr s) = s"
| "ToString rt (JArr xs) =
     join '','' (map (\<lambda>x. if x = JUndefined \<or> x = JNull then [] else ToString rt x) xs)"
| "ToString rt (JObj kvs) = ''[object Object]''"

text \<open>\<^verbatim>\<open>ToNumber\<close>; \<open>None\<close> is \<^verbatim>\<open>NaN\<close>. Arrays and objects go through their string.\<close>

definition ToNumber :: "runtime \<Rightarrow> jsval \<Rightarrow> rat option" where
  "ToNumber rt v =
     (case v of
        JUndefined \<Rightarrow> None
      | JNull \<Rightarrow> Some 0
      | JBool b \<Rightarrow> Some (if b then 1 else 0)
      | JNum n \<Rightarrow> Some n
      | JNaN \<Rightarrow> None
      | JStr s \<Rightarrow> StringToNumber rt s
      | JArr xs \<Rightarrow> StringToNumber rt (ToString rt v)
      | JObj kvs \<Rightarrow> StringToNumber rt (ToString rt v))"

text \<open>
  \<^verbatim>\<open>a < b\<close> and \<^verbatim>\<open>a <= b\<close> where one operand is a number, which is every comparison
  of the program: both operands are converted to numbers, and a comparison with
  \<^verbatim>\<open>NaN\<close> is false. \<^verbatim>\<open>a > b\<close> is \<open>js_lt rt b a\<close>.
\<close>

definition js_lt :: "runtime \<Rightarrow> jsval \<Rightarrow> jsval \<Rightarrow> bool" where
  "js_lt rt a b =
     (case (ToNumber rt a, ToNumber rt b) of (Some x, Some y) \<Rightarrow> x < y | _ \<Rightarrow> False)"

definition js_le :: "runtime \<Rightarrow> jsval \<Rightarrow> jsval \<Rightarrow> bool" where
  "js_le rt a b =
     (case (ToNumber rt a, ToNumber rt b) of (Some x, Some y) \<Rightarrow> x \<le> y | _ \<Rightarrow> False)"

text \<open>
  \<^verbatim>\<open>a + b\<close>: concatenation when an operand is a string, an array or an object,
  addition of the numbers otherwise.
\<close>

fun stringish :: "jsval \<Rightarrow> bool" where
  "stringish (JStr s) = True"
| "stringish (JArr xs) = True"
| "stringish (JObj kvs) = True"
| "stringish v = False"

definition js_plus :: "runtime \<Rightarrow> jsval \<Rightarrow> jsval \<Rightarrow> jsval" where
  "js_plus rt a b =
     (if stringish a \<or> stringish b then JStr (ToString rt a @ ToString rt b)
      else case (ToNumber rt a, ToNumber rt b) of
             (Some x, Some y) \<Rightarrow> JNum (x + y)
           | _ \<Rightarrow> JNaN)"

text \<open>
  What the program needs of \<^verbatim>\<open>JSON.stringify\<close> and \<^verbatim>\<open>JSON.parse\<close> for one value:
  the text written is not empty, and reading it gives the value back.
\<close>

definition roundtrips :: "runtime \<Rightarrow> jsval \<Rightarrow> bool" where
  "roundtrips rt v =
     (JSON_stringify rt v \<noteq> [] \<and> JSON_parse rt (JSON_stringify rt v) = Some v)"

section \<open>The browser's localStorage\<close>

text \<open>
  The stored items in key order, and the two ways the storage fails: access to it is
  refused (every operation throws a \<^verbatim>\<open>SecurityError\<close>), or its quota is used up (every
  \<^verbatim>\<open>setItem\<close> throws a \<^verbatim>\<open>QuotaExceededError\<close>).
\<close>

record storage =
  ls_items :: "(string \<times> string) list"
  ls_available :: bool
  ls_full :: bool

definition getItem :: "storage \<Rightarrow> string \<Rightarrow> js_error + string option" where
  "getItem st k =
     (if ls_available st then Inr (map_of (ls_items st) k) else Inl SecurityError)"

definition setItem :: "storage \<Rightarrow> string \<Rightarrow> string \<Rightarrow> js_error + storage" where
  "setItem st k v =
     (if \<not> ls_available st then Inl SecurityError
      else if ls_full st then Inl QuotaExceededError
      else Inr (st\<lparr>ls_items := AList.update k v (ls_items st)\<rparr>))"

definition removeItem :: "storage \<Rightarrow> string \<Rightarrow> js_error + storage" where
  "removeItem st k =
     (if ls_available st then Inr (st\<lparr>ls_items := AList.delete k (ls_items st)\<rparr>)
      else Inl SecurityError)"

text \<open>\<^verbatim>\<open>localStorage.key(i)\<close> for \<^verbatim>\<open>i = 0 .. localStorage.length - 1\<close>.\<close>

definition storage_keys :: "storage \<Rightarrow> js_error + string list" where
  "storage_keys st =
     (if ls_available st then Inr (map fst (ls_items st)) else Inl SecurityError)"

text \<open>The storage a successful \<^verbatim>\<open>setItem(k, v)\<close> leaves.\<close>

definition put_item :: "storage \<Rightarrow> string \<Rightarrow> string \<Rightarrow> storage" where
  "put_item st k v = st\<lparr>ls_items := AList.update k v (ls_items st)\<rparr>"

text \<open>The storage a successful \<^verbatim>\<open>removeItem(k)\<close> leaves.\<close>

definition drop_item :: "storage \<Rightarrow> string \<Rightarrow> storage" where
  "drop_item st k = st\<lparr>ls_items := AList.delete k (ls_items st)\<rparr>"

text \<open>A storage whose reads and writes succeed.\<close>

definition storage_healthy :: "storage \<Rightarrow> bool" where
  "storage_healthy st = (ls_available st \<and> \<not> ls_full st)"

definition empty_storage :: storage where
  "empty_storage = \<lparr>ls_items = [], ls_available = True, ls_full = False\<rparr>"

section \<open>The in-memory cache (CacheService)\<close>

text \<open>
  \<^verbatim>\<open>CacheEntry<T> = { data: T; timestamp: number; ttl?: number }\<close>.
  Numbers are exact rationals: the cache only subtracts and compares epoch milliseconds.
  An absent \<^verbatim>\<open>ttl\<close> (\<^verbatim>\<open>undefined\<close>) is \<open>None\<close>.
\<close>

record 'a CacheEntry =
  data :: 'a
  timestamp :: rat
  ttl :: "rat option"

text \<open>
  The private \<^verbatim>\<open>Map<string, CacheEntry>\<close> in insertion order: \<open>AList.update\<close>
  overwrites the value of a key in place or appends a new key, as \<^verbatim>\<open>Map.set\<close>
  does; \<open>AList.delete\<close> is \<^verbatim>\<open>Map.delete\<close>. A JavaScript map holds each key
  once, so the states of the program are the lists with distinct keys.
\<close>

type_synonym 'a cache = "(string \<times> 'a CacheEntry) list"

definition cache_new :: "'a cache" where
  "cache_new = []"

text \<open>
  The guard of \<^verbatim>\<open>get\<close>:
  \<^verbatim>\<open>entry.ttl && Date.now() - entry.timestamp > entry.ttl\<close>.
  The left operand is the truthiness of \<^verbatim>\<open>ttl\<close>: \<^verbatim>\<open>undefined\<close> and \<open>0\<close> are falsy.
\<close>

definition ttl_truthy :: "rat option \<Rightarrow> bool" where
  "ttl_truthy t = (case t of None \<Rightarrow> False | Some n \<Rightarrow> n \<noteq> 0)"

definition entry_expired :: "'a CacheEntry \<Rightarrow> rat \<Rightarrow> bool" where
  "entry_expired entry now =
     (case ttl entry of
        None \<Rightarrow> False
      | Some n \<Rightarrow> ttl_truthy (Some n) \<and> now - timestamp entry > n)"

text \<open>
  \<^verbatim>\<open>get(key)\<close> at clock reading \<open>now\<close>: the result (\<open>None\<close> is \<^verbatim>\<open>null\<close>) and the
  map afterwards.
\<close>

definition cache_get :: "string \<Rightarrow> rat \<Rightarrow> 'a cache \<Rightarrow> 'a option \<times> 'a cache" where
  "cache_get key now c =
     (case map_of c key of
        None \<Rightarrow> (None, c)
      | Some entry \<Rightarrow>
          if entry_expired entry now then (None, AList.delete key c)
          else (Some (data entry), c))"

definition cache_set :: "string \<Rightarrow> 'a \<Rightarrow> rat option \<Rightarrow> rat \<Rightarrow> 'a cache \<Rightarrow> 'a cache" where
  "cache_set key v t now c =
     AList.update key \<lparr>data = v, timestamp = now, ttl = t\<rparr> c"

definition cache_remove :: "string \<Rightarrow> 'a cache \<Rightarrow> 'a cache" where
  "cache_remove key c = AList.delete key c"

definition cache_clear :: "'a cache \<Rightarrow> 'a cache" where
  "cache_clear c = []"

definition cache_size :: "'a cache \<Rightarrow> nat" where
  "cache_size c = length c"

text \<open>
  \<^verbatim>\<open>has(key)\<close> is \<^verbatim>\<open>this.get(key) !== null\<close>: false also for a live entry whose data
  is \<^verbatim>\<open>null\<close>; \<open>is_null\<close> tells which values of the element type are \<^verbatim>\<open>null\<close>.
\<close>

definition cache_has :: "('a \<Rightarrow> bool) \<Rightarrow> string \<Rightarrow> rat \<Rightarrow> 'a cache \<Rightarrow> bool \<times> 'a cache" where
  "cache_has is_null key now c =
     (case cache_get key now c of
        (None, c') \<Rightarrow> (False, c')
      | (Some v, c') \<Rightarrow> (\<not> is_null v, c'))"

text \<open>
  The specification's wording of expiry, kept apart from the code's: an entry whose
  \<^verbatim>\<open>ttl\<close> is set is expired iff \<open>now - timestamp > ttl\<close>; an entry without one never is.
\<close>

definition spec_expired :: "'a CacheEntry \<Rightarrow> rat \<Rightarrow> bool" where
  "spec_expired entry now =
     (case ttl entry of None \<Rightarrow> False | Some n \<Rightarrow> now - timestamp entry > n)"

text \<open>The entries a read at \<open>now\<close> would still return, and those it would evict.\<close>

definition live_entries :: "'a cache \<Rightarrow> rat \<Rightarrow> (string \<times> 'a CacheEntry) list" where
  "live_entries c now = filter (\<lambda>(k, e). \<not> entry_expired e now) c"

definition stale_entries :: "'a cache \<Rightarrow> rat \<Rightarrow> (string \<times> 'a CacheEntry) list" where
  "stale_entries c now = filter (\<lambda>(k, e). entry_expired e now) c"

section \<open>The model validator (data service)\<close>

text \<open>
  \<^verbatim>\<open>ValidationError = { field, message, value? }\<close>; \<open>err_value\<close> is \<open>None\<close> when the
  object literal has no \<^verbatim>\<open>value\<close> key. \<^verbatim>\<open>ValidationResult\<close> is either
  \<^verbatim>\<open>{ valid: true, data }\<close> or \<^verbatim>\<open>{ valid: false, errors }\<close>.
\<close>

record validation_error =
  field :: string
  message :: string
  err_value :: "jsval option"

datatype validation_result = Valid jsval | Invalid "validation_error list"

text \<open>The decimal digits of an array index, as a template literal prints it.\<close>

fun nat_to_string :: "nat \<Rightarrow> string" where
  "nat_to_string n =
     (if n < 10 then [''0123456789'' ! n]
      else nat_to_string (n div 10) @ [''0123456789'' ! (n mod 10)])"

declare nat_to_string.simps [simp del]

text \<open>
  The callback of \<^verbatim>\<open>m.posmMarkers.forEach((marker, index) => ...)\<close>: three
  \<^verbatim>\<open>if\<close> statements in a row, each reading \<^verbatim>\<open>marker.position\<close> again. The first
  condition stops at its first true disjunct.
\<close>

definition position_invalid :: "jsval \<Rightarrow> js_error + bool" where
  "position_invalid marker =
     bind_err (jget marker ''position'') (\<lambda>position.
       if \<not> truthy position then Inr True
       else
         bind_err (jget position ''x'') (\<lambda>x.
           if typeof x \<noteq> T_number then Inr True
           else bind_err (jget position ''y'') (\<lambda>y. Inr (typeof y \<noteq> T_number))))"

definition validateMarker ::
  "runtime \<Rightarrow> jsval \<Rightarrow> nat \<Rightarrow> validation_error list \<Rightarrow> js_error + validation_error list" where
  "validateMarker rt marker index errors =
     bind_err (position_invalid marker) (\<lambda>bad.
       let errors1 =
             (if bad then
                errors @
                  [\<lparr>field = ''posmMarkers['' @ nat_to_string index @ ''].position'',
                    message = ''Invalid position coordinates'',
                    err_value = None\<rparr>]
              else errors)
       in
       bind_err (jget marker ''position'') (\<lambda>position.
       bind_err (jget position ''x'') (\<lambda>x.
         let errors2 =
               (if js_lt rt x (JNum 0) \<or> js_lt rt (JNum 100) x then
                  errors1 @
                    [\<lparr>field = ''posmMarkers['' @ nat_to_string index @ ''].position.x'',
                      message = ''X coordinate must be between 0 and 100'',
                      err_value = Some x\<rparr>]
                else errors1)
         in
         bind_err (jget position ''y'') (\<lambda>y.
           Inr (if js_lt rt y (JNum 0) \<or> js_lt rt (JNum 100) y then
                  errors2 @
                    [\<lparr>field = ''posmMarkers['' @ nat_to_string index @ ''].position.y'',
                      message = ''Y coordinate must be between 0 and 100'',
                      err_value = Some y\<rparr>]
                else errors2)))))"

fun validateMarkers ::
  "runtime \<Rightarrow> jsval list \<Rightarrow> nat \<Rightarrow> validation_error list \<Rightarrow> js_error + validation_error list" where
  "validateMarkers rt [] index errors = Inr errors"
| "validateMarkers rt (marker # markers) index errors =
     (case validateMarker rt marker index errors of
        Inl e \<Rightarrow> Inl e
      | Inr errors' \<Rightarrow> validateMarkers rt markers (Suc index) errors')"

text \<open>The checks of the \<^verbatim>\<open>else\<close> branch for a truthy \<^verbatim>\<open>m.image\<close> of type object.\<close>

definition validateImage ::
  "runtime \<Rightarrow> jsval \<Rightarrow> validation_error list \<Rightarrow> js_error + validation_error list" where
  "validateImage rt img errors =
     bind_err (jget img ''url'') (\<lambda>url.
     bind_err (jget img ''width'') (\<lambda>width.
     bind_err (jget img ''height'') (\<lambda>height.
       let errors1 =
             (if \<not> truthy url then
                errors @ [\<lparr>field = ''image.url'', message = ''Image URL is required'',
                           err_value = None\<rparr>]
              else errors);
           errors2 =
             (if typeof width \<noteq> T_number \<or> js_le rt width (JNum 0) then
                errors1 @ [\<lparr>field = ''image.width'',
                            message = ''Image width must be a positive number'',
                            err_value = None\<rparr>]
              else errors1)
       in
       Inr (if typeof height \<noteq> T_number \<or> js_le rt height (JNum 0) then
              errors2 @ [\<lparr>field = ''image.height'',
                          message = ''Image height must be a positive number'',
                          err_value = None\<rparr>]
            else errors2))))"

text \<open>
  \<^verbatim>\<open>validateModel(model)\<close>. The function has no \<^verbatim>\<open>try\<close>: an exception of a property
  read leaves it (\<open>Inl\<close>).
\<close>

definition validateModel :: "runtime \<Rightarrow> jsval \<Rightarrow> js_error + validation_result" where
  "validateModel rt model =
     (if typeof model \<noteq> T_object \<or> model = JNull then
        Inr (Invalid [\<lparr>field = ''model'', message = ''Model must be an object'',
                       err_value = None\<rparr>])
      else
        bind_err (jget model ''id'') (\<lambda>mid.
        bind_err (jget model ''name'') (\<lambda>mname.
        bind_err (jget model ''image'') (\<lambda>img.
        bind_err (jget model ''posmMarkers'') (\<lambda>posmMarkers.
          let errors1 =
                (if \<not> truthy mid \<or> typeof mid \<noteq> T_string then
                   [\<lparr>field = ''id'', message = ''ID is required and must be a string'',
                     err_value = Some mid\<rparr>]
                 else []);
              errors2 =
                (if \<not> truthy mname \<or> typeof mname \<noteq> T_string then
                   errors1 @
                     [\<lparr>field = ''name'', message = ''Name is required and must be a string'',
                       err_value = Some mname\<rparr>]
                 else errors1)
          in
          bind_err
            (if \<not> truthy img \<or> typeof img \<noteq> T_object then
               Inr (errors2 @ [\<lparr>field = ''image'', message = ''Image is required'',
                                err_value = None\<rparr>])
             else validateImage rt img errors2) (\<lambda>errors3.
          bind_err
            (case posmMarkers of
               JArr markers \<Rightarrow> validateMarkers rt markers 0 errors3
             | _ \<Rightarrow>
                 Inr (errors3 @ [\<lparr>field = ''posmMarkers'',
                                  message = ''POSM markers must be an array'',
                                  err_value = None\<rparr>])) (\<lambda>errors4.
            Inr (if length errors4 > 0 then Invalid errors4 else Valid model))))))))"

text \<open>A marker whose \<^verbatim>\<open>position\<close> is neither missing nor \<^verbatim>\<open>null\<close>.\<close>

definition has_position :: "jsval \<Rightarrow> bool" where
  "has_position marker =
     (case jget marker ''position'' of
        Inl e \<Rightarrow> False
      | Inr p \<Rightarrow> p \<noteq> JUndefined \<and> p \<noteq> JNull)"

section \<open>The rate limiter (security utilities)\<close>

text \<open>The stored counter \<^verbatim>\<open>{ attempts, resetTime }\<close>.\<close>

definition counter :: "jsval \<Rightarrow> jsval \<Rightarrow> jsval" where
  "counter attempts resetTime = JObj [(''attempts'', attempts), (''resetTime'', resetTime)]"

definition rate_limit_key :: "string \<Rightarrow> string" where
  "rate_limit_key key = ''rate_limit_'' @ key"

text \<open>
  The body of the \<^verbatim>\<open>try\<close> block of \<^verbatim>\<open>rateLimit(key, maxAttempts, windowMs)\<close>, with
  \<open>now\<close> the reading of \<^verbatim>\<open>Date.now()\<close>. \<^verbatim>\<open>!data\<close> holds of \<^verbatim>\<open>null\<close> and of the empty
  string; the destructuring of the parsed value reads its two properties.
\<close>

definition store_first_attempt ::
  "runtime \<Rightarrow> string \<Rightarrow> rat \<Rightarrow> rat \<Rightarrow> storage \<Rightarrow> js_error + bool \<times> storage" where
  "store_first_attempt rt storageKey windowMs now st =
     bind_err
       (setItem st storageKey (JSON_stringify rt (counter (JNum 1) (JNum (now + windowMs)))))
       (\<lambda>st'. Inr (True, st'))"

definition rateLimit_try ::
  "runtime \<Rightarrow> string \<Rightarrow> rat \<Rightarrow> rat \<Rightarrow> rat \<Rightarrow> storage \<Rightarrow> js_error + bool \<times> storage" where
  "rateLimit_try rt key maxAttempts windowMs now st =
     (let storageKey = rate_limit_key key in
      bind_err (getItem st storageKey) (\<lambda>data.
        case data of
          None \<Rightarrow> store_first_attempt rt storageKey windowMs now st
        | Some s \<Rightarrow>
            if s = [] then store_first_attempt rt storageKey windowMs now st
            else
              (case JSON_parse rt s of
                 None \<Rightarrow> Inl SyntaxError
               | Some parsed \<Rightarrow>
                   bind_err (jget parsed ''attempts'') (\<lambda>attempts.
                   bind_err (jget parsed ''resetTime'') (\<lambda>resetTime.
                     if js_lt rt resetTime (JNum now) then
                       store_first_attempt rt storageKey windowMs now st
                     else if js_lt rt attempts (JNum maxAttempts) then
                       bind_err
                         (setItem st storageKey
                            (JSON_stringify rt (counter (js_plus rt attempts (JNum 1)) resetTime)))
                         (\<lambda>st'. Inr (True, st'))
                     else Inr (False, st))))))"

text \<open>The \<^verbatim>\<open>catch\<close> clause: whatever was thrown, the action is allowed.\<close>

definition rateLimit ::
  "runtime \<Rightarrow> string \<Rightarrow> rat \<Rightarrow> rat \<Rightarrow> rat \<Rightarrow> storage \<Rightarrow> bool \<times> storage" where
  "rateLimit rt key maxAttempts windowMs now st =
     (case rateLimit_try rt key maxAttempts windowMs now st of
        Inl e \<Rightarrow> (True, st)
      | Inr r \<Rightarrow> r)"

definition clearRateLimit :: "string \<Rightarrow> storage \<Rightarrow> js_error + storage" where
  "clearRateLimit key st = removeItem st (rate_limit_key key)"

text \<open>Successive calls of \<^verbatim>\<open>rateLimit\<close> at the clock readings \<open>ts\<close>, earliest first.\<close>

fun rateLimit_calls ::
  "runtime \<Rightarrow> string \<Rightarrow> rat \<Rightarrow> rat \<Rightarrow> rat list \<Rightarrow> storage \<Rightarrow> bool list \<times> storage" where
  "rateLimit_calls rt key maxAttempts windowMs [] st = ([], st)"
| "rateLimit_calls rt key maxAttempts windowMs (now # ts) st =
     (case rateLimit rt key maxAttempts windowMs now st of
        (allowed, st') \<Rightarrow>
          (case rateLimit_calls rt key maxAttempts windowMs ts st' of
             (rest, st'') \<Rightarrow> (allowed # rest, st'')))"

section \<open>The session store (auth service)\<close>

definition SESSION_KEY :: string where
  "SESSION_KEY = ''posm-catalogue-session''"

definition SESSION_DURATION :: rat where
  "SESSION_DURATION = 24 * 60 * 60 * 1000"

definition MAX_LOGIN_ATTEMPTS :: rat where
  "MAX_LOGIN_ATTEMPTS = 5"

definition RATE_LIMIT_WINDOW :: rat where
  "RATE_LIMIT_WINDOW = 15 * 60 * 1000"

definition DEMO_PASSWORD :: string where
  "DEMO_PASSWORD = ''admin123''"

definition too_many_attempts :: js_error where
  "too_many_attempts = Error ''Too many login attempts. Please try again in 15 minutes.''"

text \<open>
  The session \<^verbatim>\<open>login\<close> mints: \<open>token\<close> is what \<^verbatim>\<open>generateSessionToken()\<close> drew,
  \<open>now\<close> the reading of \<^verbatim>\<open>Date.now()\<close> in the object literal.
\<close>

definition new_session :: "runtime \<Rightarrow> string \<Rightarrow> rat \<Rightarrow> jsval" where
  "new_session rt token now =
     JObj [(''isAuthenticated'', JBool True),
           (''sessionToken'', JStr token),
           (''expiresAt'', JStr (Date_toISOString rt (now + SESSION_DURATION))),
           (''mode'', JStr ''admin'')]"

text \<open>
  \<^verbatim>\<open>login(password)\<close>. The function is \<^verbatim>\<open>async\<close>: a \<^verbatim>\<open>throw\<close> rejects the promise
  (\<open>Inl\<close>). \<open>now\<close> is the clock reading inside \<^verbatim>\<open>rateLimit\<close>, \<open>now'\<close> the later one
  when the session is minted.
\<close>

definition login ::
  "runtime \<Rightarrow> string \<Rightarrow> string \<Rightarrow> rat \<Rightarrow> rat \<Rightarrow> storage \<Rightarrow> (js_error + bool) \<times> storage" where
  "login rt password token now now' st =
     (case rateLimit rt ''login'' MAX_LOGIN_ATTEMPTS RATE_LIMIT_WINDOW now st of
        (allowed, st1) \<Rightarrow>
          if \<not> allowed then (Inl too_many_attempts, st1)
          else if password = DEMO_PASSWORD then
            (case clearRateLimit ''login'' st1 of
               Inl e \<Rightarrow> (Inl e, st1)
             | Inr st2 \<Rightarrow>
                 (case setItem st2 SESSION_KEY (JSON_stringify rt (new_session rt token now')) of
                    Inl e \<Rightarrow> (Inl e, st2)
                  | Inr st3 \<Rightarrow> (Inr True, st3)))
          else (Inr False, st1))"

definition logout :: "storage \<Rightarrow> js_error + storage" where
  "logout st = removeItem st SESSION_KEY"

text \<open>
  \<^verbatim>\<open>getSession()\<close>: the body of its \<^verbatim>\<open>try\<close> block, then the \<^verbatim>\<open>catch\<close> that returns
  \<^verbatim>\<open>null\<close>. \<^verbatim>\<open>now > expiresAt\<close> is false when \<^verbatim>\<open>expiresAt\<close> is \<^verbatim>\<open>NaN\<close>.
\<close>

definition getSession_try :: "runtime \<Rightarrow> rat \<Rightarrow> storage \<Rightarrow> js_error + jsval option \<times> storage" where
  "getSession_try rt now st =
     bind_err (getItem st SESSION_KEY) (\<lambda>sessionData.
       case sessionData of
         None \<Rightarrow> Inr (None, st)
       | Some s \<Rightarrow>
           if s = [] then Inr (None, st)
           else
             (case JSON_parse rt s of
                None \<Rightarrow> Inl SyntaxError
              | Some session \<Rightarrow>
                  bind_err (jget session ''expiresAt'') (\<lambda>e.
                    let expiresAt = Date_getTime rt e in
                    if (case expiresAt of None \<Rightarrow> False | Some t \<Rightarrow> now > t) then
                      bind_err (logout st) (\<lambda>st'. Inr (None, st'))
                    else Inr (Some session, st))))"

definition getSession :: "runtime \<Rightarrow> rat \<Rightarrow> storage \<Rightarrow> jsval option \<times> storage" where
  "getSession rt now st =
     (case getSession_try rt now st of
        Inl e \<Rightarrow> (None, st)
      | Inr r \<Rightarrow> r)"

text \<open>
  \<^verbatim>\<open>isAuthenticated()\<close>: \<^verbatim>\<open>session !== null && session.isAuthenticated\<close>, the value
  of the flag as stored.
\<close>

definition isAuthenticated :: "runtime \<Rightarrow> rat \<Rightarrow> storage \<Rightarrow> (js_error + jsval) \<times> storage" where
  "isAuthenticated rt now st =
     (case getSession rt now st of
        (None, st') \<Rightarrow> (Inr (JBool False), st')
      | (Some session, st') \<Rightarrow> (jget session ''isAuthenticated'', st'))"

text \<open>
  The specification's wording of a valid session, kept apart from the code's: the flag is
  \<^verbatim>\<open>true\<close> and \<open>now \<le> expiresAt\<close>.
\<close>

definition spec_session_valid :: "runtime \<Rightarrow> jsval \<Rightarrow> rat \<Rightarrow> bool" where
  "spec_session_valid rt session now =
     (jget session ''isAuthenticated'' = Inr (JBool True) \<and>
      (case jget session ''expiresAt'' of
         Inl e \<Rightarrow> False
       | Inr e \<Rightarrow> (case Date_getTime rt e of None \<Rightarrow> False | Some t \<Rightarrow> now \<le> t)))"

section \<open>The draft store (draft service)\<close>

definition DRAFT_KEY_PREFIX :: string where
  "DRAFT_KEY_PREFIX = ''posm-draft-''"

definition TIMESTAMP_SUFFIX :: string where
  "TIMESTAMP_SUFFIX = ''-timestamp''"

definition draft_key :: "string \<Rightarrow> string" where
  "draft_key modelId = DRAFT_KEY_PREFIX @ modelId"

definition draft_timestamp_key :: "string \<Rightarrow> string" where
  "draft_timestamp_key modelId = draft_key modelId @ TIMESTAMP_SUFFIX"

definition failed_to_save :: js_error where
  "failed_to_save = Error ''Failed to save draft''"

text \<open>
  \<^verbatim>\<open>saveDraft(modelId, draftData)\<close> at clock reading \<open>now\<close>: two writes, and any
  exception rethrown as \<^verbatim>\<open>Failed to save draft\<close>.
\<close>

definition saveDraft ::
  "runtime \<Rightarrow> string \<Rightarrow> jsval \<Rightarrow> rat \<Rightarrow> storage \<Rightarrow> (js_error + unit) \<times> storage" where
  "saveDraft rt modelId draftData now st =
     (case setItem st (draft_key modelId) (JSON_stringify rt draftData) of
        Inl e \<Rightarrow> (Inl failed_to_save, st)
      | Inr st1 \<Rightarrow>
          (case setItem st1 (draft_timestamp_key modelId) (Date_toISOString rt now) of
             Inl e \<Rightarrow> (Inl failed_to_save, st1)
           | Inr st2 \<Rightarrow> (Inr (), st2)))"

text \<open>
  \<^verbatim>\<open>loadDraft(modelId)\<close>: \<open>None\<close> is \<^verbatim>\<open>null\<close>, which is also what \<^verbatim>\<open>JSON.parse\<close>
  returns for the text \<^verbatim>\<open>null\<close>. The storage is only read.
\<close>

definition loadDraft_try :: "runtime \<Rightarrow> string \<Rightarrow> storage \<Rightarrow> js_error + jsval option" where
  "loadDraft_try rt modelId st =
     bind_err (getItem st (draft_key modelId)) (\<lambda>draftData.
       case draftData of
         None \<Rightarrow> Inr None
       | Some s \<Rightarrow>
           if s = [] then Inr None
           else
             (case JSON_parse rt s of
                None \<Rightarrow> Inl SyntaxError
              | Some v \<Rightarrow> Inr (if v = JNull then None else Some v)))"

definition loadDraft :: "runtime \<Rightarrow> string \<Rightarrow> storage \<Rightarrow> jsval option" where
  "loadDraft rt modelId st =
     (case loadDraft_try rt modelId st of
        Inl e \<Rightarrow> None
      | Inr r \<Rightarrow> r)"

definition clearDraft :: "string \<Rightarrow> storage \<Rightarrow> (js_error + unit) \<times> storage" where
  "clearDraft modelId st =
     (case removeItem st (draft_key modelId) of
        Inl e \<Rightarrow> (Inl e, st)
      | Inr st1 \<Rightarrow>
          (case removeItem st1 (draft_timestamp_key modelId) of
             Inl e \<Rightarrow> (Inl e, st1)
           | Inr st2 \<Rightarrow> (Inr (), st2)))"

definition hasDraft :: "string \<Rightarrow> storage \<Rightarrow> js_error + bool" where
  "hasDraft modelId st =
     bind_err (getItem st (draft_key modelId)) (\<lambda>d. Inr (d \<noteq> None))"

text \<open>\<^verbatim>\<open>key.startsWith(p)\<close>, \<^verbatim>\<open>key.endsWith(s)\<close> and \<^verbatim>\<open>key.substring(n)\<close>.\<close>

definition startsWith :: "string \<Rightarrow> string \<Rightarrow> bool" where
  "startsWith key p = (take (length p) key = p)"

definition endsWith :: "string \<Rightarrow> string \<Rightarrow> bool" where
  "endsWith key s = (length s \<le> length key \<and> drop (length key - length s) key = s)"

definition substring :: "string \<Rightarrow> nat \<Rightarrow> string" where
  "substring key n = drop n key"

text \<open>
  The loop of \<^verbatim>\<open>getAllDraftIds\<close> over the keys in storage order; \<^verbatim>\<open>key && ...\<close>
  skips the empty key.
\<close>

fun collect_draft_ids :: "string list \<Rightarrow> string list \<Rightarrow> string list" where
  "collect_draft_ids [] draftIds = draftIds"
| "collect_draft_ids (key # keys) draftIds =
     (if key \<noteq> [] \<and> startsWith key DRAFT_KEY_PREFIX \<and> \<not> endsWith key TIMESTAMP_SUFFIX
      then collect_draft_ids keys (draftIds @ [substring key (length DRAFT_KEY_PREFIX)])
      else collect_draft_ids keys draftIds)"

definition getAllDraftIds :: "storage \<Rightarrow> js_error + string list" where
  "getAllDraftIds st = bind_err (storage_keys st) (\<lambda>keys. Inr (collect_draft_ids keys []))"

definition getDraftTimestamp :: "string \<Rightarrow> storage \<Rightarrow> js_error + string option" where
  "getDraftTimestamp modelId st = getItem st (draft_timestamp_key modelId)"

section \<open>A concrete runtime\<close>

text \<open>
  A small instance of the runtime, for running the model at concrete inputs. It follows
  \<^verbatim>\<open>JSON.stringify\<close>, \<^verbatim>\<open>JSON.parse\<close>, \<^verbatim>\<open>Date\<close> and the number conversions of a
  browser within these limits. Numbers are exact rationals, written as plain decimals
  with at most 17 fraction digits, where a browser rounds to the nearest double and
  writes an exponent from \<^verbatim>\<open>1e21\<close> on and below \<^verbatim>\<open>1e-6\<close>; a number beyond the range
  of doubles is rejected, where a browser reads an infinity or zero. Characters are
  bytes, so a \<^verbatim>\<open>\u\<close> escape above \<^verbatim>\<open>00ff\<close> is rejected. A date string is read in the
  forms \<^verbatim>\<open>YYYY-MM-DDTHH:mm:ss.sssZ\<close> and \<^verbatim>\<open>YYYY-MM-DD\<close>; the other forms a browser
  reads, and arrays and objects, are answered with \<^verbatim>\<open>NaN\<close>. A numeric string is a
  decimal literal; the hexadecimal, octal, binary and \<^verbatim>\<open>Infinity\<close> forms are answered
  with \<^verbatim>\<open>NaN\<close>.
\<close>

definition is_digit :: "char \<Rightarrow> bool" where
  "is_digit c = (c \<in> set ''0123456789'')"

definition digit_val :: "char \<Rightarrow> int" where
  "digit_val c = int (length (takeWhile (\<lambda>d. d \<noteq> c) ''0123456789''))"

function int_digits :: "int \<Rightarrow> string" where
  "int_digits n =
     (if n < 10 then [''0123456789'' ! nat n]
      else int_digits (n div 10) @ [''0123456789'' ! nat (n mod 10)])"
  by pat_completeness auto
termination
  by (relation "measure nat") auto

declare int_digits.simps [simp del]

fun fraction_digits :: "nat \<Rightarrow> rat \<Rightarrow> string" where
  "fraction_digits 0 r = []"
| "fraction_digits (Suc fuel) r =
     (if r = 0 then []
      else (''0123456789'' ! nat \<lfloor>r * 10\<rfloor>) #
           fraction_digits fuel (r * 10 - of_int \<lfloor>r * 10\<rfloor>))"

definition ref_NumberToString :: "rat \<Rightarrow> string" where
  "ref_NumberToString n =
     (if n < 0 then ''-'' else []) @ int_digits \<lfloor>\<bar>n\<bar>\<rfloor> @
     (if \<bar>n\<bar> = of_int \<lfloor>\<bar>n\<bar>\<rfloor> then []
      else ''.'' @ fraction_digits 17 (\<bar>n\<bar> - of_int \<lfloor>\<bar>n\<bar>\<rfloor>))"

fun read_digits :: "string \<Rightarrow> int \<Rightarrow> nat \<Rightarrow> int \<times> nat \<times> string" where
  "read_digits [] acc len = (acc, len, [])"
| "read_digits (c # cs) acc len =
     (if is_digit c then read_digits cs (acc * 10 + digit_val c) (Suc len)
      else (acc, len, c # cs))"

text \<open>The finite doubles lie strictly between \<open>- 2 ^ 1024\<close> and \<open>2 ^ 1024\<close>.\<close>

definition in_double_range :: "rat \<Rightarrow> bool" where
  "in_double_range n = (\<bar>n\<bar> < 2 ^ 1024)"

definition scale10 :: "rat \<Rightarrow> int \<Rightarrow> rat" where
  "scale10 n e = (if 0 \<le> e then n * 10 ^ nat e else n / 10 ^ nat (- e))"

text \<open>An optional exponent part \<^verbatim>\<open>e\<close>, \<^verbatim>\<open>e+\<close> or \<^verbatim>\<open>e-\<close> with digits, applied to \<open>n\<close>.\<close>

definition read_exponent :: "rat \<Rightarrow> string \<Rightarrow> (rat \<times> string) option" where
  "read_exponent n s =
     (case s of
        [] \<Rightarrow> Some (n, s)
      | c # cs \<Rightarrow>
          if c = CHR ''e'' \<or> c = CHR ''E'' then
            (case read_digits
                    (case cs of
                       [] \<Rightarrow> []
                     | d # ds \<Rightarrow> if d = CHR ''-'' \<or> d = CHR ''+'' then ds else cs) 0 0 of
               (ex, elen, r) \<Rightarrow>
                 if elen = 0 \<or> 400 < ex then None
                 else
                   (let v = scale10 n (if take 1 cs = ''-'' then - ex else ex)
                    in if in_double_range v then Some (v, r) else None))
          else Some (n, s))"

text \<open>
  An unsigned decimal literal. The JSON grammar (\<open>strict\<close>) wants digits on both sides of
  the point and no leading zero; a numeric string may leave out one side and may start
  with zeros.
\<close>

definition read_unsigned :: "bool \<Rightarrow> string \<Rightarrow> (rat \<times> string) option" where
  "read_unsigned strict s =
     (case read_digits s 0 0 of
        (whole, wlen, s2) \<Rightarrow>
          if strict \<and> (wlen = 0 \<or> (1 < wlen \<and> take 1 s = ''0'')) then None
          else if 300 < wlen \<and> \<not> in_double_range (of_int whole + 1) then None
          else if take 1 s2 = ''.'' then
            (case read_digits (drop 1 s2) 0 0 of
               (fpart, flen, s3) \<Rightarrow>
                 if flen = 0 \<and> (strict \<or> wlen = 0) then None
                 else read_exponent (of_int whole + of_int fpart / 10 ^ flen) s3)
          else if wlen = 0 then None
          else read_exponent (of_int whole) s2)"

definition read_number :: "string \<Rightarrow> (rat \<times> string) option" where
  "read_number s =
     (case s of
        [] \<Rightarrow> None
      | c # cs \<Rightarrow>
          if c = CHR ''-'' then map_option (\<lambda>(n, r). (- n, r)) (read_unsigned True cs)
          else read_unsigned True s)"

definition is_space :: "char \<Rightarrow> bool" where
  "is_space c =
     (c = CHR '' '' \<or> c = CHR 0x09 \<or> c = CHR 0x0A \<or> c = CHR 0x0B \<or> c = CHR 0x0C \<or>
      c = CHR 0x0D)"

definition trim :: "string \<Rightarrow> string" where
  "trim s = rev (dropWhile is_space (rev (dropWhile is_space s)))"

text \<open>
  \<^verbatim>\<open>StringToNumber\<close>: white space around the literal is dropped, the empty string is
  \<open>0\<close>, a sign may come first.
\<close>

definition ref_StringToNumber :: "string \<Rightarrow> rat option" where
  "ref_StringToNumber s =
     (case trim s of
        [] \<Rightarrow> Some 0
      | c # cs \<Rightarrow>
          (case (if c = CHR ''-'' then map_option (\<lambda>(n, r). (- n, r)) (read_unsigned False cs)
                 else if c = CHR ''+'' then read_unsigned False cs
                 else read_unsigned False (c # cs)) of
             Some (n, []) \<Rightarrow> Some n
           | _ \<Rightarrow> None))"

text \<open>
  A string in quotes: the quote, the backslash and the control characters are escaped,
  the latter by their short forms or as \<^verbatim>\<open>\u00xx\<close>.
\<close>

definition escape_char :: "char \<Rightarrow> string" where
  "escape_char c =
     (if c = CHR 0x22 then [CHR 0x5C, CHR 0x22]
      else if c = CHR 0x5C then [CHR 0x5C, CHR 0x5C]
      else if c = CHR 0x08 then [CHR 0x5C, CHR ''b'']
      else if c = CHR 0x09 then [CHR 0x5C, CHR ''t'']
      else if c = CHR 0x0A then [CHR 0x5C, CHR ''n'']
      else if c = CHR 0x0C then [CHR 0x5C, CHR ''f'']
      else if c = CHR 0x0D then [CHR 0x5C, CHR ''r'']
      else if (of_char c :: nat) < 32 then
        [CHR 0x5C, CHR ''u'', CHR ''0'', CHR ''0'',
         ''0123456789abcdef'' ! (of_char c div 16), ''0123456789abcdef'' ! (of_char c mod 16)]
      else [c])"

definition quote :: "string \<Rightarrow> string" where
  "quote s = CHR 0x22 # concat (map escape_char s) @ [CHR 0x22]"

fun json_text :: "jsval \<Rightarrow> string"
  and json_elements :: "jsval list \<Rightarrow> string list"
  and json_members :: "(string \<times> jsval) list \<Rightarrow> string list" where
  "json_text JUndefined = ''null''"
| "json_text JNull = ''null''"
| "json_text (JBool b) = (if b then ''true'' else ''false'')"
| "json_text (JNum n) = ref_NumberToString n"
| "json_text JNaN = ''null''"
| "json_text (JStr s) = quote s"
| "json_text (JArr xs) = ''['' @ join '','' (json_elements xs) @ '']''"
| "json_text (JObj kvs) = ''{'' @ join '','' (json_members kvs) @ ''}''"
| "json_elements [] = []"
| "json_elements (x # xs) = json_text x # json_elements xs"
| "json_members [] = []"
| "json_members ((k, v) # kvs) =
     (if v = JUndefined then json_members kvs
      else (quote k @ '':'' @ json_text v) # json_members kvs)"

text \<open>
  \<^verbatim>\<open>JSON.stringify(undefined)\<close> is \<^verbatim>\<open>undefined\<close>, which \<^verbatim>\<open>setItem\<close> stores as the
  string \<^verbatim>\<open>undefined\<close>.
\<close>

definition ref_JSON_stringify :: "jsval \<Rightarrow> string" where
  "ref_JSON_stringify v = (if v = JUndefined then ''undefined'' else json_text v)"

definition skip_ws :: "string \<Rightarrow> string" where
  "skip_ws s = dropWhile (\<lambda>c. c = CHR '' '' \<or> c = CHR 0x09 \<or> c = CHR 0x0A \<or> c = CHR 0x0D) s"

definition hex_val :: "char \<Rightarrow> nat option" where
  "hex_val c =
     (if c \<in> set ''0123456789abcdef'' then
        Some (length (takeWhile (\<lambda>d. d \<noteq> c) ''0123456789abcdef''))
      else if c \<in> set ''ABCDEF'' then
        Some (10 + length (takeWhile (\<lambda>d. d \<noteq> c) ''ABCDEF''))
      else None)"

text \<open>The character of the four hexadecimal digits after \<^verbatim>\<open>\u\<close>, when it is a byte.\<close>

definition read_unicode :: "string \<Rightarrow> char option" where
  "read_unicode s =
     (case map hex_val s of
        [Some a, Some b, Some c, Some d] \<Rightarrow>
          if a = 0 \<and> b = 0 then Some (char_of (16 * c + d)) else None
      | _ \<Rightarrow> None)"

definition read_escape :: "char \<Rightarrow> char option" where
  "read_escape d =
     (if d = CHR 0x22 \<or> d = CHR 0x5C \<or> d = CHR ''/'' then Some d
      else if d = CHR ''b'' then Some (CHR 0x08)
      else if d = CHR ''t'' then Some (CHR 0x09)
      else if d = CHR ''n'' then Some (CHR 0x0A)
      else if d = CHR ''f'' then Some (CHR 0x0C)
      else if d = CHR ''r'' then Some (CHR 0x0D)
      else None)"

text \<open>
  The rest of a string after its opening quote: up to the closing quote, with the escapes
  undone; a raw control character is not allowed.
\<close>

fun read_string :: "string \<Rightarrow> string \<Rightarrow> (string \<times> string) option" where
  "read_string [] acc = None"
| "read_string [c] acc = (if c = CHR 0x22 then Some (acc, []) else None)"
| "read_string (c # d # cs) acc =
     (if c = CHR 0x22 then Some (acc, d # cs)
      else if c = CHR 0x5C then
        (if d = CHR ''u'' then
           (case read_unicode (take 4 cs) of
              None \<Rightarrow> None
            | Some u \<Rightarrow> read_string (drop 4 cs) (acc @ [u]))
         else
           (case read_escape d of
              None \<Rightarrow> None
            | Some e \<Rightarrow> read_string cs (acc @ [e])))
      else if (of_char c :: nat) < 32 then None
      else read_string (d # cs) (acc @ [c]))"

fun read_value :: "'f list \<Rightarrow> string \<Rightarrow> (jsval \<times> string) option"
  and read_elements :: "'f list \<Rightarrow> string \<Rightarrow> jsval list \<Rightarrow> (jsval list \<times> string) option"
  and read_members ::
    "'f list \<Rightarrow> string \<Rightarrow> (string \<times> jsval) list \<Rightarrow> ((string \<times> jsval) list \<times> string) option" where
  "read_value [] s = None"
| "read_value (f # fuel) s =
     (case skip_ws s of
        [] \<Rightarrow> None
      | c # cs \<Rightarrow>
          if c = CHR ''{'' then
            (case skip_ws cs of
               [] \<Rightarrow> None
             | d # ds \<Rightarrow>
                 if d = CHR ''}'' then Some (JObj [], ds)
                 else map_option (\<lambda>(kvs, r). (JObj kvs, r)) (read_members fuel cs []))
          else if c = CHR ''['' then
            (case skip_ws cs of
               [] \<Rightarrow> None
             | d # ds \<Rightarrow>
                 if d = CHR '']'' then Some (JArr [], ds)
                 else map_option (\<lambda>(xs, r). (JArr xs, r)) (read_elements fuel cs []))
          else if c = CHR 0x22 then map_option (\<lambda>(t, r). (JStr t, r)) (read_string cs [])
          else if take 4 (c # cs) = ''true'' then Some (JBool True, drop 4 (c # cs))
          else if take 5 (c # cs) = ''false'' then Some (JBool False, drop 5 (c # cs))
          else if take 4 (c # cs) = ''null'' then Some (JNull, drop 4 (c # cs))
          else map_option (\<lambda>(n, r). (JNum n, r)) (read_number (c # cs)))"
| "read_elements [] s acc = None"
| "read_elements (f # fuel) s acc =
     (case read_value fuel s of
        None \<Rightarrow> None
      | Some (v, r) \<Rightarrow>
          (case skip_ws r of
             [] \<Rightarrow> None
           | c # cs \<Rightarrow>
               if c = CHR '','' then read_elements fuel cs (acc @ [v])
               else if c = CHR '']'' then Some (acc @ [v], cs)
               else None))"
| "read_members [] s acc = None"
| "read_members (f # fuel) s acc =
     (case skip_ws s of
        [] \<Rightarrow> None
      | q # s1 \<Rightarrow>
          if q \<noteq> CHR 0x22 then None
          else
            (case read_string s1 [] of
               None \<Rightarrow> None
             | Some (k, s2) \<Rightarrow>
                 (case skip_ws s2 of
                    [] \<Rightarrow> None
                  | c # s3 \<Rightarrow>
                      if c \<noteq> CHR '':'' then None
                      else
                        (case read_value fuel s3 of
                           None \<Rightarrow> None
                         | Some (v, r) \<Rightarrow>
                             (case skip_ws r of
                                [] \<Rightarrow> None
                              | e # cs \<Rightarrow>
                                  if e = CHR '','' then
                                    read_members fuel cs (AList.update k v acc)
                                  else if e = CHR ''}'' then Some (AList.update k v acc, cs)
                                  else None)))))"

definition ref_JSON_parse :: "string \<Rightarrow> jsval option" where
  "ref_JSON_parse s =
     (case read_value (s @ s @ ''  '') s of
        Some (v, r) \<Rightarrow> if skip_ws r = [] then Some v else None
      | None \<Rightarrow> None)"

text \<open>Days since 1970-01-01 to a civil date (proleptic Gregorian) and back.\<close>

definition civil_from_days :: "int \<Rightarrow> int \<times> int \<times> int" where
  "civil_from_days z0 =
     (let z = z0 + 719468;
          era = z div 146097;
          doe = z mod 146097;
          yoe = (doe - doe div 1460 + doe div 36524 - doe div 146096) div 365;
          doy = doe - (365 * yoe + yoe div 4 - yoe div 100);
          mp = (5 * doy + 2) div 153;
          d = doy - (153 * mp + 2) div 5 + 1;
          m = (if mp < 10 then mp + 3 else mp - 9);
          y = yoe + era * 400 + (if m \<le> 2 then 1 else 0)
      in (y, m, d))"

definition days_from_civil :: "int \<Rightarrow> int \<Rightarrow> int \<Rightarrow> int" where
  "days_from_civil y0 m d =
     (let y = (if m \<le> 2 then y0 - 1 else y0);
          era = y div 400;
          yoe = y mod 400;
          doy = (153 * (if m > 2 then m - 3 else m + 9) + 2) div 5 + d - 1;
          doe = yoe * 365 + yoe div 4 - yoe div 100 + doy
      in era * 146097 + doe - 719468)"

definition pad :: "nat \<Rightarrow> int \<Rightarrow> string" where
  "pad w n = replicate (w - length (int_digits n)) (CHR ''0'') @ int_digits n"

text \<open>
  The time value of a number: its integral part, and no time at all beyond 8.64e15
  milliseconds from the epoch.
\<close>

definition time_value :: "rat \<Rightarrow> int" where
  "time_value t = (if t < 0 then - \<lfloor>- t\<rfloor> else \<lfloor>t\<rfloor>)"

definition time_clip :: "rat \<Rightarrow> rat option" where
  "time_clip t =
     (if \<bar>time_value t\<bar> \<le> 8640000000000000 then Some (of_int (time_value t)) else None)"

text \<open>
  \<^verbatim>\<open>toISOString\<close> for the years 0000 to 9999, which are written with four digits.
\<close>

definition ref_Date_toISOString :: "rat \<Rightarrow> string" where
  "ref_Date_toISOString t =
     (let tv = time_value t;
          msday = tv mod 86400000
      in case civil_from_days (tv div 86400000) of
           (y, m, d) \<Rightarrow>
             pad 4 y @ ''-'' @ pad 2 m @ ''-'' @ pad 2 d @ ''T'' @
             pad 2 (msday div 3600000) @ '':'' @ pad 2 (msday div 60000 mod 60) @ '':'' @
             pad 2 (msday div 1000 mod 60) @ ''.'' @ pad 3 (msday mod 1000) @ ''Z'')"

definition digits_value :: "string \<Rightarrow> int option" where
  "digits_value s =
     (if s \<noteq> [] \<and> list_all is_digit s then Some (fst (read_digits s 0 0)) else None)"

text \<open>
  A timestamp is read by its fields and accepted when it is the text of the instant it
  denotes, which rules out fields out of range.
\<close>

definition read_iso :: "string \<Rightarrow> rat option" where
  "read_iso s =
     (case (digits_value (take 4 s), digits_value (take 2 (drop 5 s)),
            digits_value (take 2 (drop 8 s)), digits_value (take 2 (drop 11 s)),
            digits_value (take 2 (drop 14 s)), digits_value (take 2 (drop 17 s)),
            digits_value (take 3 (drop 20 s))) of
        (Some y, Some m, Some d, Some h, Some mi, Some sec, Some ms) \<Rightarrow>
          (let t = of_int (days_from_civil y m d * 86400000 + h * 3600000 + mi * 60000 +
                           sec * 1000 + ms)
           in if ref_Date_toISOString t = s then Some t else None)
      | _ \<Rightarrow> None)"

text \<open>A date-only string is midnight UTC of that day.\<close>

definition read_date :: "string \<Rightarrow> rat option" where
  "read_date s = (if length s = 10 then read_iso (s @ ''T00:00:00.000Z'') else read_iso s)"

definition ref_Date_getTime :: "jsval \<Rightarrow> rat option" where
  "ref_Date_getTime v =
     (case v of
        JNull \<Rightarrow> Some 0
      | JBool b \<Rightarrow> Some (if b then 1 else 0)
      | JNum n \<Rightarrow> time_clip n
      | JStr s \<Rightarrow> read_date s
      | _ \<Rightarrow> None)"

definition reference_runtime :: runtime where
  "reference_runtime =
     \<lparr>JSON_parse = ref_JSON_parse,
      JSON_stringify = ref_JSON_stringify,
      Date_getTime = ref_Date_getTime,
      Date_toISOString = ref_Date_toISOString,
      StringToNumber = ref_StringToNumber,
      NumberToString = ref_NumberToString\<rparr>"

section \<open>Sample states\<close>

text \<open>
  A stored session that expires at \<^verbatim>\<open>1970-01-02T00:00:01.001Z\<close> (epoch millisecond
  86401001), with the given \<^verbatim>\<open>isAuthenticated\<close> flag, and the storage that holds its
  text under the session key. For the flag \<^verbatim>\<open>false\<close> the text is
  \<^verbatim>\<open>{"isAuthenticated":false,"sessionToken":"tok","expiresAt":"1970-01-02T00:00:01.001Z","mode":"admin"}\<close>.
\<close>

definition stored_session :: "bool \<Rightarrow> jsval" where
  "stored_session flag =
     JObj [(''isAuthenticated'', JBool flag), (''sessionToken'', JStr ''tok''),
           (''expiresAt'', JStr ''1970-01-02T00:00:01.001Z''), (''mode'', JStr ''admin'')]"

definition session_storage :: "bool \<Rightarrow> storage" where
  "session_storage flag =
     \<lparr>ls_items = [(''posm-catalogue-session'',
                    JSON_stringify reference_runtime (stored_session flag))],
      ls_available = True, ls_full = False\<rparr>"

text \<open>
  A product model with one image and the given markers, and a marker at a given position.
\<close>

definition sample_model :: "jsval list \<Rightarrow> jsval" where
  "sample_model markers =
     JObj [(''id'', JStr ''model-001''),
           (''name'', JStr ''Premium Shelf Display''),
           (''categoryIds'', JArr [JStr ''shelf'']),
           (''image'', JObj [(''url'', JStr ''/images/model-001.webp''), (''width'', JNum 1200),
                             (''height'', JNum 800), (''alt'', JStr ''Shelf''),
                             (''format'', JStr ''webp'')]),
           (''posmMarkers'', JArr markers),
           (''metadata'', JObj [(''createdAt'', JStr ''2024-01-01T00:00:00.000Z''),
                                (''updatedAt'', JStr ''2024-01-01T00:00:00.000Z''),
                                (''version'', JStr ''1.0.0'')])]"

definition sample_marker :: "string \<Rightarrow> jsval \<Rightarrow> jsval \<Rightarrow> jsval" where
  "sample_marker mid x y =
     JObj [(''id'', JStr mid),
           (''position'', JObj [(''x'', x), (''y'', y)]),
           (''info'', JObj [(''name'', JStr ''Wobbler''), (''description'', JStr ''Shelf edge'')])]"

section \<open>Facts about the cache's map\<close>

lemma length_delete_present:
  "distinct (map fst c) \<Longrightarrow> map_of c k = Some e \<Longrightarrow> length (AList.delete k c) = length c - 1"
proof (induction c)
  case Nil
  then show ?case by simp
next
  case (Cons p c)
  obtain k' e' where p: "p = (k', e')" by (cases p)
  show ?case
  proof (cases "k' = k")
    case True
    with Cons.prems p have "k \<notin> fst ` set c" by simp
    then have "AList.delete k c = c"
      by (induction c) (auto simp: AList.delete_eq)
    with True p show ?thesis by (simp add: AList.delete_eq)
  next
    case False
    with Cons.prems p have d: "distinct (map fst c)" and m: "map_of c k = Some e" by auto
    from m have "c \<noteq> []" by auto
    then have "0 < length c" by simp
    with Cons.IH [OF d m] False p show ?thesis by (simp add: AList.delete_eq)
  qed
qed

lemma cache_set_distinct:
  "distinct (map fst c) \<Longrightarrow> distinct (map fst (cache_set k v t now c))"
  by (simp add: cache_set_def distinct_update)

lemma cache_get_distinct:
  "distinct (map fst c) \<Longrightarrow> distinct (map fst (snd (cache_get k now c)))"
  by (simp add: cache_get_def distinct_delete split: option.splits)

lemma live_stale_partition:
  "length (live_entries c now) + length (stale_entries c now) = length c"
  unfolding live_entries_def stale_entries_def
  by (induction c) auto

lemma map_of_delete_self: "map_of (AList.delete k c) k = None"
  by (simp add: delete_conv')

section \<open>The cache: expiry, size and the zero time-to-live\<close>

text \<open>
  Claim C5, as the specification words it, fails at a time-to-live of zero: an entry
  stored at time 0 with \<^verbatim>\<open>ttl = 0\<close> has \<open>now - timestamp > ttl\<close> at time 5, yet
  \<^verbatim>\<open>get\<close> still returns its value and leaves it in the map.
\<close>

theorem cache_get_ttl_zero_counterexample:
  "spec_expired \<lparr>data = 42::nat, timestamp = 0, ttl = Some 0\<rparr> 5 \<and>
   map_of (cache_set ''k'' (42::nat) (Some 0) 0 cache_new) ''k''
     = Some \<lparr>data = 42, timestamp = 0, ttl = Some 0\<rparr> \<and>
   cache_get ''k'' 5 (cache_set ''k'' (42::nat) (Some 0) 0 cache_new)
     = (Some 42, cache_set ''k'' 42 (Some 0) 0 cache_new)"
  by (simp add: spec_expired_def cache_set_def cache_new_def cache_get_def entry_expired_def
      ttl_truthy_def)

text \<open>
  Claim C5, amended: \<^verbatim>\<open>get\<close> returns absent for a key with no entry; for an entry
  without a time-to-live it returns the stored value whatever the time; for an entry whose
  time-to-live is a non-zero number it returns the stored value while
  \<open>now - timestamp \<le> ttl\<close>, and once \<open>now - timestamp > ttl\<close> (strictly) it deletes the
  entry and returns absent, so that the key is gone and a second read is absent too.
  \<^verbatim>\<open>get\<close> has no exception path: it is a total function into an optional value.
\<close>

theorem cache_get_expiry:
  "(map_of c key = None \<longrightarrow> cache_get key now c = (None, c)) \<and>
   (\<forall>e. map_of c key = Some e \<longrightarrow>
      (ttl e = None \<longrightarrow> cache_get key now c = (Some (data e), c)) \<and>
      (\<forall>n. ttl e = Some n \<and> n \<noteq> 0 \<longrightarrow>
         (now - timestamp e > n \<longrightarrow>
            cache_get key now c = (None, AList.delete key c) \<and>
            map_of (AList.delete key c) key = None \<and>
            cache_get key now (AList.delete key c) = (None, AList.delete key c)) \<and>
         (\<not> now - timestamp e > n \<longrightarrow> cache_get key now c = (Some (data e), c))))"
  by (simp add: cache_get_def entry_expired_def ttl_truthy_def delete_conv')

text \<open>
  Claim C5, at concrete inputs: an entry stored at time 0 with a time-to-live of 1000 is
  returned at time 1000 and evicted at time 1001; one stored without a time-to-live is
  returned at time 1001; a key never stored is absent.
\<close>

theorem cache_get_expiry_witness:
  "cache_get ''k'' 1000 (cache_set ''k'' (42::nat) (Some 1000) 0 cache_new)
     = (Some 42, cache_set ''k'' 42 (Some 1000) 0 cache_new) \<and>
   cache_get ''k'' 1001 (cache_set ''k'' (42::nat) (Some 1000) 0 cache_new) = (None, cache_new) \<and>
   cache_get ''k'' 1001 (cache_set ''k'' (42::nat) None 0 cache_new)
     = (Some 42, cache_set ''k'' 42 None 0 cache_new) \<and>
   cache_get ''j'' 1001 (cache_set ''k'' (42::nat) None 0 cache_new)
     = (None, cache_set ''k'' 42 None 0 cache_new)"
proof -
  let ?e = "\<lparr>data = 42::nat, timestamp = 0, ttl = Some 1000\<rparr>"
  let ?f = "\<lparr>data = 42::nat, timestamp = 0, ttl = None\<rparr>"
  have c1: "cache_set ''k'' (42::nat) (Some 1000) 0 [] = [(''k'', ?e)]"
    by (simp add: cache_set_def)
  have c2: "cache_set ''k'' (42::nat) None 0 [] = [(''k'', ?f)]"
    by (simp add: cache_set_def)
  have m1: "map_of [(''k'', ?e)] ''k'' = Some ?e" by simp
  have m2: "map_of [(''k'', ?f)] ''k'' = Some ?f" by simp
  have m3: "map_of [(''k'', ?f)] ''j'' = None" by simp
  from cache_get_expiry [of "[(''k'', ?e)]" "''k''" 1000] m1
  have a: "cache_get ''k'' 1000 [(''k'', ?e)] = (Some 42, [(''k'', ?e)])" by simp
  from cache_get_expiry [of "[(''k'', ?e)]" "''k''" 1001] m1
  have b: "cache_get ''k'' 1001 [(''k'', ?e)] = (None, [])" by (simp add: AList.delete_eq)
  from cache_get_expiry [of "[(''k'', ?f)]" "''k''" 1001] m2
  have c: "cache_get ''k'' 1001 [(''k'', ?f)] = (Some 42, [(''k'', ?f)])" by simp
  from cache_get_expiry [of "[(''k'', ?f)]" "''j''" 1001] m3
  have d: "cache_get ''j'' 1001 [(''k'', ?f)] = (None, [(''k'', ?f)])" by simp
  show ?thesis unfolding cache_new_def c1 c2 using a b c d by simp
qed

text \<open>
  Claim C6: \<^verbatim>\<open>size()\<close> counts every entry held, the live ones and the expired ones not
  yet read, so it bounds the number of live entries from above; and a \<^verbatim>\<open>get\<close> on a
  key whose entry has expired returns absent and leaves a map whose size is smaller by
  one.
\<close>

theorem cache_size_upper_bound:
  "cache_size c = length (live_entries c now) + length (stale_entries c now) \<and>
   length (live_entries c now) \<le> cache_size c \<and>
   (distinct (map fst c) \<longrightarrow>
      (\<forall>e. map_of c key = Some e \<and> entry_expired e now \<longrightarrow>
         fst (cache_get key now c) = None \<and>
         Suc (cache_size (snd (cache_get key now c))) = cache_size c))"
proof -
  have p: "length (live_entries c now) + length (stale_entries c now) = length c"
    by (rule live_stale_partition)
  have e: "Suc (cache_size (snd (cache_get key now c))) = cache_size c
           \<and> fst (cache_get key now c) = None"
    if "distinct (map fst c)" "map_of c key = Some e" "entry_expired e now" for e
  proof -
    from that(2) have "c \<noteq> []" by auto
    then have "0 < length c" by simp
    with length_delete_present [OF that(1,2)] that(2,3) show ?thesis
      by (simp add: cache_get_def cache_size_def)
  qed
  from p e show ?thesis by (auto simp: cache_size_def)
qed

text \<open>
  Claim C6, at concrete inputs: with \<^verbatim>\<open>a\<close> stored at time 0 for 10 ms and \<^verbatim>\<open>b\<close>
  stored without a time-to-live, the size at time 11 is 2 though one entry is live; the
  read of \<^verbatim>\<open>a\<close> is absent and the size afterwards is 1.
\<close>

theorem cache_size_upper_bound_witness:
  "cache_size (cache_set ''b'' (2::nat) None 0 (cache_set ''a'' 1 (Some 10) 0 cache_new)) = 2 \<and>
   length (live_entries
      (cache_set ''b'' (2::nat) None 0 (cache_set ''a'' 1 (Some 10) 0 cache_new)) 11) = 1 \<and>
   fst (cache_get ''a'' 11
      (cache_set ''b'' (2::nat) None 0 (cache_set ''a'' 1 (Some 10) 0 cache_new))) = None \<and>
   cache_size (snd (cache_get ''a'' 11
      (cache_set ''b'' (2::nat) None 0 (cache_set ''a'' 1 (Some 10) 0 cache_new)))) = 1"
proof -
  let ?a = "\<lparr>data = 1::nat, timestamp = 0, ttl = Some 10\<rparr>"
  let ?b = "\<lparr>data = 2::nat, timestamp = 0, ttl = None\<rparr>"
  let ?c = "[(''a'', ?a), (''b'', ?b)]"
  have c: "cache_set ''b'' (2::nat) None 0 (cache_set ''a'' 1 (Some 10) 0 cache_new) = ?c"
    by (simp add: cache_set_def cache_new_def)
  have d: "distinct (map fst ?c)" by simp
  have m: "map_of ?c ''a'' = Some ?a" by simp
  have x: "entry_expired ?a 11" by (simp add: entry_expired_def ttl_truthy_def)
  have s: "cache_size ?c = 2" by (simp add: cache_size_def)
  have l: "length (live_entries ?c 11) = 1"
    by (simp add: live_entries_def entry_expired_def ttl_truthy_def)
  from cache_size_upper_bound [of ?c 11 "''a''"] d m x s
  have "fst (cache_get ''a'' 11 ?c) = None \<and> cache_size (snd (cache_get ''a'' 11 ?c)) = 1"
    by simp
  with s l show ?thesis unfolding c by simp
qed

text \<open>
  Claim C10: an entry stored with a time-to-live of exactly 0 never expires. At every
  time \<^verbatim>\<open>get\<close> returns its value and leaves the map as it was, which is also what it
  does for the entry stored with no time-to-live.
\<close>

theorem cache_ttl_zero_never_expires:
  "cache_get key now (cache_set key v (Some 0) t0 c) = (Some v, cache_set key v (Some 0) t0 c) \<and>
   cache_get key now (cache_set key v None t0 c) = (Some v, cache_set key v None t0 c) \<and>
   fst (cache_get key now (cache_set key v (Some 0) t0 c))
     = fst (cache_get key now (cache_set key v None t0 c))"
  by (simp add: cache_get_def cache_set_def update_conv' entry_expired_def ttl_truthy_def)

section \<open>Facts about the storage and the counter\<close>

lemma getItem_available:
  "ls_available st \<Longrightarrow> getItem st k = Inr (map_of (ls_items st) k)"
  by (simp add: getItem_def)

lemma setItem_healthy:
  "storage_healthy st \<Longrightarrow> setItem st k v = Inr (put_item st k v)"
  by (simp add: setItem_def storage_healthy_def put_item_def)

lemma put_item_healthy [simp]: "storage_healthy (put_item st k v) = storage_healthy st"
  by (simp add: storage_healthy_def put_item_def)

lemma put_item_lookup [simp]:
  "map_of (ls_items (put_item st k v)) k' = (if k' = k then Some v else map_of (ls_items st) k')"
  by (simp add: put_item_def update_conv')

lemma jget_counter [simp]:
  "jget (counter a r) ''attempts'' = Inr a"
  "jget (counter a r) ''resetTime'' = Inr r"
  by (simp_all add: counter_def)

lemma js_lt_num [simp]: "js_lt rt (JNum a) (JNum b) = (a < b)"
  by (simp add: js_lt_def ToNumber_def)

lemma js_plus_num [simp]: "js_plus rt (JNum a) (JNum b) = JNum (a + b)"
  by (simp add: js_plus_def ToNumber_def)

lemma rateLimit_first:
  assumes "storage_healthy st" and "map_of (ls_items st) (rate_limit_key key) = None"
  shows "rateLimit rt key maxAttempts windowMs now st =
           (True, put_item st (rate_limit_key key)
                    (JSON_stringify rt (counter (JNum 1) (JNum (now + windowMs)))))"
  using assms
  by (simp add: rateLimit_def rateLimit_try_def store_first_attempt_def bind_err_def
      getItem_def setItem_healthy storage_healthy_def)

lemma rateLimit_stored:
  assumes "storage_healthy st"
    and "map_of (ls_items st) (rate_limit_key key) = Some (JSON_stringify rt (counter (JNum a) (JNum r)))"
    and "roundtrips rt (counter (JNum a) (JNum r))"
  shows "rateLimit rt key maxAttempts windowMs now st =
           (if r < now then
              (True, put_item st (rate_limit_key key)
                       (JSON_stringify rt (counter (JNum 1) (JNum (now + windowMs)))))
            else if a < maxAttempts then
              (True, put_item st (rate_limit_key key)
                       (JSON_stringify rt (counter (JNum (a + 1)) (JNum r))))
            else (False, st))"
  using assms
  by (simp add: rateLimit_def rateLimit_try_def store_first_attempt_def bind_err_def
      getItem_def setItem_healthy storage_healthy_def roundtrips_def)


lemma put_item_twice [simp]: "put_item (put_item st k v) k w = put_item st k w"
  by (simp add: put_item_def update_last)

section \<open>The rate limiter: the window of five attempts\<close>

text \<open>
  Claim C3: with \<open>max = 5\<close>, a working storage that holds no counter for the key, and a
  runtime that reads back the counters it writes, the first five calls of \<^verbatim>\<open>rateLimit\<close>
  inside one window (no call later than the \<^verbatim>\<open>resetTime\<close> the first call recorded) are
  allowed and the sixth is not; a call after \<^verbatim>\<open>resetTime\<close> is allowed again and
  records \<open>attempts = 1\<close> with a new \<^verbatim>\<open>resetTime\<close> one window after it.
\<close>

theorem rateLimit_five_then_blocked:
  assumes healthy: "storage_healthy st"
    and fresh: "map_of (ls_items st) (rate_limit_key key) = None"
    and codec: "\<forall>a \<in> {1, 2, 3, 4, 5}. roundtrips rt (counter (JNum a) (JNum (t1 + w)))"
    and window: "\<forall>t \<in> {t2, t3, t4, t5, t6}. t \<le> t1 + w"
    and later: "t1 + w < t7"
  shows "fst (rateLimit_calls rt key 5 w [t1, t2, t3, t4, t5, t6] st)
           = [True, True, True, True, True, False] \<and>
         rateLimit rt key 5 w t7 (snd (rateLimit_calls rt key 5 w [t1, t2, t3, t4, t5, t6] st))
           = (True, put_item st (rate_limit_key key)
                      (JSON_stringify rt (counter (JNum 1) (JNum (t7 + w)))))"
proof -
  let ?K = "rate_limit_key key"
  let ?text = "\<lambda>a. JSON_stringify rt (counter (JNum a) (JNum (t1 + w)))"
  let ?st = "\<lambda>a. put_item st ?K (?text a)"
  have rt: "roundtrips rt (counter (JNum a) (JNum (t1 + w)))" if "a \<in> {1, 2, 3, 4, 5}" for a
    using codec that by blast
  have step: "rateLimit rt key 5 w t (?st a) =
                (if a < 5 then (True, ?st (a + 1)) else (False, ?st a))"
    if "a \<in> {1, 2, 3, 4, 5}" "t \<le> t1 + w" for a t
    using rateLimit_stored [of "?st a" key rt a "t1 + w" 5 w t] rt [OF that(1)] that(2) healthy
    by simp
  have c1: "rateLimit rt key 5 w t1 st = (True, ?st 1)"
    using rateLimit_first [OF healthy fresh] by simp
  have c2: "rateLimit rt key 5 w t2 (?st 1) = (True, ?st 2)" using step [of 1 t2] window by simp
  have c3: "rateLimit rt key 5 w t3 (?st 2) = (True, ?st 3)" using step [of 2 t3] window by simp
  have c4: "rateLimit rt key 5 w t4 (?st 3) = (True, ?st 4)" using step [of 3 t4] window by simp
  have c5: "rateLimit rt key 5 w t5 (?st 4) = (True, ?st 5)" using step [of 4 t5] window by simp
  have c6: "rateLimit rt key 5 w t6 (?st 5) = (False, ?st 5)" using step [of 5 t6] window by simp
  have calls: "rateLimit_calls rt key 5 w [t1, t2, t3, t4, t5, t6] st
                 = ([True, True, True, True, True, False], ?st 5)"
    by (simp add: c1 c2 c3 c4 c5 c6)
  have c7: "rateLimit rt key 5 w t7 (?st 5)
              = (True, put_item st ?K (JSON_stringify rt (counter (JNum 1) (JNum (t7 + w)))))"
    using rateLimit_stored [of "?st 5" key rt 5 "t1 + w" 5 w t7] rt [of 5] later healthy
    by simp
  show ?thesis unfolding calls fst_conv snd_conv using c7 by simp
qed

lemma ref_roundtrips_counters:
  "\<forall>a \<in> {1, 2, 3, 4, 5}. roundtrips reference_runtime (counter (JNum a) (JNum (1000 + 900000)))"
  by code_simp

text \<open>
  Claim C3, at concrete inputs: a window of 900000 ms opened at time 1000, calls at
  1000, 2000, 3000, 4000, 5000 and 901000 (the last instant of the window), then a call
  at 901001.
\<close>

theorem rateLimit_five_then_blocked_witness:
  "fst (rateLimit_calls reference_runtime ''login'' 5 900000 [1000, 2000, 3000, 4000, 5000, 901000]
          empty_storage) = [True, True, True, True, True, False] \<and>
   rateLimit reference_runtime ''login'' 5 900000 901001
     (snd (rateLimit_calls reference_runtime ''login'' 5 900000
             [1000, 2000, 3000, 4000, 5000, 901000] empty_storage))
     = (True, put_item empty_storage (rate_limit_key ''login'')
                (JSON_stringify reference_runtime (counter (JNum 1) (JNum 1801001))))"
proof -
  have h: "storage_healthy empty_storage"
    by (simp add: storage_healthy_def empty_storage_def)
  have f: "map_of (ls_items empty_storage) (rate_limit_key ''login'') = None"
    by (simp add: empty_storage_def)
  have w: "\<forall>t \<in> {2000, 3000, 4000, 5000, 901000::rat}. t \<le> 1000 + 900000" by simp
  have l: "(1000::rat) + 900000 < 901001" by simp
  from rateLimit_five_then_blocked [OF h f ref_roundtrips_counters w l]
  show ?thesis by simp
qed


section \<open>The rate limiter: failing open\<close>

lemma rateLimit_unavailable:
  "\<not> ls_available st \<Longrightarrow> rateLimit_try rt key maxAttempts windowMs now st = Inl SecurityError"
  by (simp add: rateLimit_try_def getItem_def bind_err_def)

lemma rateLimit_corrupt:
  "ls_available st \<Longrightarrow> map_of (ls_items st) (rate_limit_key key) = Some s \<Longrightarrow> s \<noteq> [] \<Longrightarrow>
   JSON_parse rt s = None \<Longrightarrow>
   rateLimit_try rt key maxAttempts windowMs now st = Inl SyntaxError"
  by (simp add: rateLimit_try_def getItem_def bind_err_def)

lemma rateLimit_quota:
  "ls_available st \<Longrightarrow> ls_full st \<Longrightarrow> map_of (ls_items st) (rate_limit_key key) = None \<Longrightarrow>
   rateLimit_try rt key maxAttempts windowMs now st = Inl QuotaExceededError"
  by (simp add: rateLimit_try_def getItem_def bind_err_def store_first_attempt_def setItem_def)

lemma rateLimit_calls_stuck:
  "(\<And>now. rateLimit rt key maxAttempts windowMs now st = (True, st)) \<Longrightarrow>
   rateLimit_calls rt key maxAttempts windowMs ts st = (replicate (length ts) True, st)"
  by (induction ts) simp_all

text \<open>
  Claim C9: whenever a read or a write of the counter throws, \<^verbatim>\<open>rateLimit\<close> returns
  true and leaves the storage as it was. That happens when the storage refuses access,
  when it is full and the first counter is to be written, and when the stored text does
  not parse; and while the failure lasts every call in a row is allowed, so that the
  guarded action is never limited.
\<close>

theorem rateLimit_fails_open:
  "(\<forall>e. rateLimit_try rt key maxAttempts windowMs now st = Inl e \<longrightarrow>
        rateLimit rt key maxAttempts windowMs now st = (True, st)) \<and>
   (\<not> ls_available st \<longrightarrow>
      rateLimit_try rt key maxAttempts windowMs now st = Inl SecurityError \<and>
      rateLimit_calls rt key maxAttempts windowMs ts st = (replicate (length ts) True, st)) \<and>
   (ls_available st \<and> ls_full st \<and> map_of (ls_items st) (rate_limit_key key) = None \<longrightarrow>
      rateLimit_try rt key maxAttempts windowMs now st = Inl QuotaExceededError \<and>
      rateLimit_calls rt key maxAttempts windowMs ts st = (replicate (length ts) True, st)) \<and>
   (\<forall>s. ls_available st \<and> map_of (ls_items st) (rate_limit_key key) = Some s \<and> s \<noteq> [] \<and>
        JSON_parse rt s = None \<longrightarrow>
      rateLimit_try rt key maxAttempts windowMs now st = Inl SyntaxError \<and>
      rateLimit_calls rt key maxAttempts windowMs ts st = (replicate (length ts) True, st))"
proof -
  have caught: "rateLimit rt key maxAttempts windowMs t st = (True, st)"
    if "rateLimit_try rt key maxAttempts windowMs t st = Inl e" for e t
    using that by (simp add: rateLimit_def)
  have a: "rateLimit_calls rt key maxAttempts windowMs ts st = (replicate (length ts) True, st)"
    if "\<not> ls_available st"
    by (rule rateLimit_calls_stuck) (rule caught, rule rateLimit_unavailable, rule that)
  have b: "rateLimit_calls rt key maxAttempts windowMs ts st = (replicate (length ts) True, st)"
    if "ls_available st" "ls_full st" "map_of (ls_items st) (rate_limit_key key) = None"
    by (rule rateLimit_calls_stuck) (rule caught, rule rateLimit_quota, (rule that)+)
  have c: "rateLimit_calls rt key maxAttempts windowMs ts st = (replicate (length ts) True, st)"
    if "ls_available st" "map_of (ls_items st) (rate_limit_key key) = Some s" "s \<noteq> []"
      "JSON_parse rt s = None" for s
    by (rule rateLimit_calls_stuck) (rule caught, rule rateLimit_corrupt, (rule that)+)
  have p1: "\<forall>e. rateLimit_try rt key maxAttempts windowMs now st = Inl e \<longrightarrow>
              rateLimit rt key maxAttempts windowMs now st = (True, st)"
    using caught by simp
  have p2: "\<not> ls_available st \<longrightarrow>
      rateLimit_try rt key maxAttempts windowMs now st = Inl SecurityError \<and>
      rateLimit_calls rt key maxAttempts windowMs ts st = (replicate (length ts) True, st)"
    using a rateLimit_unavailable by simp
  have p3: "ls_available st \<and> ls_full st \<and> map_of (ls_items st) (rate_limit_key key) = None \<longrightarrow>
      rateLimit_try rt key maxAttempts windowMs now st = Inl QuotaExceededError \<and>
      rateLimit_calls rt key maxAttempts windowMs ts st = (replicate (length ts) True, st)"
    using b rateLimit_quota by simp
  have p4: "\<forall>s. ls_available st \<and> map_of (ls_items st) (rate_limit_key key) = Some s \<and> s \<noteq> [] \<and>
        JSON_parse rt s = None \<longrightarrow>
      rateLimit_try rt key maxAttempts windowMs now st = Inl SyntaxError \<and>
      rateLimit_calls rt key maxAttempts windowMs ts st = (replicate (length ts) True, st)"
    using c rateLimit_corrupt by simp
  from p1 p2 p3 p4 show ?thesis by (intro conjI)
qed


text \<open>
  Claim C9, at concrete inputs: seven calls in a row are all allowed on a storage that
  refuses access, on a full storage, and on a storage whose counter is the broken text
  \<^verbatim>\<open>{attempts:\<close>.
\<close>

theorem rateLimit_fails_open_witness:
  "rateLimit_calls reference_runtime ''login'' 5 900000 [1, 2, 3, 4, 5, 6, 7]
      \<lparr>ls_items = [], ls_available = False, ls_full = False\<rparr>
     = ([True, True, True, True, True, True, True],
        \<lparr>ls_items = [], ls_available = False, ls_full = False\<rparr>) \<and>
   rateLimit_calls reference_runtime ''login'' 5 900000 [1, 2, 3, 4, 5, 6, 7]
      \<lparr>ls_items = [], ls_available = True, ls_full = True\<rparr>
     = ([True, True, True, True, True, True, True],
        \<lparr>ls_items = [], ls_available = True, ls_full = True\<rparr>) \<and>
   rateLimit_calls reference_runtime ''login'' 5 900000 [1, 2, 3, 4, 5, 6, 7]
      \<lparr>ls_items = [(''rate_limit_login'', ''{attempts:'')], ls_available = True, ls_full = False\<rparr>
     = ([True, True, True, True, True, True, True],
        \<lparr>ls_items = [(''rate_limit_login'', ''{attempts:'')], ls_available = True,
          ls_full = False\<rparr>)"
proof -
  let ?ts = "[1, 2, 3, 4, 5, 6, 7::rat]"
  let ?off = "\<lparr>ls_items = [], ls_available = False, ls_full = False\<rparr>"
  let ?full = "\<lparr>ls_items = [], ls_available = True, ls_full = True\<rparr>"
  let ?bad = "\<lparr>ls_items = [(''rate_limit_login'', ''{attempts:'')], ls_available = True,
               ls_full = False\<rparr>"
  have n: "replicate (length ?ts) True = [True, True, True, True, True, True, True]"
    by (simp add: numeral_eq_Suc)
  have p: "JSON_parse reference_runtime ''{attempts:'' = None" by code_simp
  have k: "rate_limit_key ''login'' = ''rate_limit_login''" by (simp add: rate_limit_key_def)
  from rateLimit_fails_open [of reference_runtime "''login''" 5 900000 1 ?off ?ts]
  have a: "rateLimit_calls reference_runtime ''login'' 5 900000 ?ts ?off
             = (replicate (length ?ts) True, ?off)"
    by (simp del: rateLimit_calls.simps)
  from rateLimit_fails_open [of reference_runtime "''login''" 5 900000 1 ?full ?ts]
  have b: "rateLimit_calls reference_runtime ''login'' 5 900000 ?ts ?full
             = (replicate (length ?ts) True, ?full)"
    by (simp del: rateLimit_calls.simps add: k)
  from rateLimit_fails_open [of reference_runtime "''login''" 5 900000 1 ?bad ?ts] p
  have c: "rateLimit_calls reference_runtime ''login'' 5 900000 ?ts ?bad
             = (replicate (length ?ts) True, ?bad)"
    by (simp del: rateLimit_calls.simps add: k)
  from a b c show ?thesis unfolding n by (intro conjI)
qed

section \<open>Login: the limit, the session, the counted attempt\<close>

lemma removeItem_available:
  "ls_available st \<Longrightarrow> removeItem st k = Inr (drop_item st k)"
  by (simp add: removeItem_def drop_item_def)

lemma drop_item_healthy [simp]: "storage_healthy (drop_item st k) = storage_healthy st"
  by (simp add: storage_healthy_def drop_item_def)

lemma drop_item_lookup [simp]:
  "map_of (ls_items (drop_item st k)) k' = (if k' = k then None else map_of (ls_items st) k')"
  by (simp add: drop_item_def delete_conv')

lemma setItem_flags:
  "setItem st k v = Inr st' \<Longrightarrow> ls_available st' = ls_available st \<and> ls_full st' = ls_full st"
  by (auto simp: setItem_def split: if_splits)

lemma store_first_attempt_flags:
  "store_first_attempt rt k w now st = Inr (b, st') \<Longrightarrow>
   ls_available st' = ls_available st \<and> ls_full st' = ls_full st"
  by (auto simp: store_first_attempt_def bind_err_def split: sum.splits dest: setItem_flags)

lemma rateLimit_try_flags:
  "rateLimit_try rt key maxAttempts windowMs now st = Inr (b, st') \<Longrightarrow>
   ls_available st' = ls_available st \<and> ls_full st' = ls_full st"
  unfolding rateLimit_try_def Let_def bind_err_def
  by (auto split: sum.splits option.splits if_splits
      dest: setItem_flags store_first_attempt_flags)

lemma rateLimit_healthy:
  "storage_healthy (snd (rateLimit rt key maxAttempts windowMs now st)) = storage_healthy st"
proof (cases "rateLimit_try rt key maxAttempts windowMs now st")
  case (Inl e)
  then show ?thesis by (simp add: rateLimit_def)
next
  case (Inr r)
  obtain b st' where r: "r = (b, st')" by (cases r)
  from rateLimit_try_flags [OF Inr [unfolded r]] Inr r show ?thesis
    by (simp add: rateLimit_def storage_healthy_def)
qed

lemma rateLimit_exhausted:
  assumes "ls_available st"
    and "map_of (ls_items st) (rate_limit_key key) = Some s" and "s \<noteq> []"
    and "JSON_parse rt s = Some (counter (JNum a) (JNum r))"
    and "maxAttempts \<le> a" and "now \<le> r"
  shows "rateLimit rt key maxAttempts windowMs now st = (False, st)"
  using assms
  by (simp add: rateLimit_def rateLimit_try_def bind_err_def getItem_def)

lemma login_allowed:
  assumes "rateLimit rt ''login'' MAX_LOGIN_ATTEMPTS RATE_LIMIT_WINDOW now st = (True, st1)"
  shows "login rt password token now now' st =
           (if password = DEMO_PASSWORD then
              (case clearRateLimit ''login'' st1 of
                 Inl e \<Rightarrow> (Inl e, st1)
               | Inr st2 \<Rightarrow>
                   (case setItem st2 SESSION_KEY (JSON_stringify rt (new_session rt token now')) of
                      Inl e \<Rightarrow> (Inl e, st2)
                    | Inr st3 \<Rightarrow> (Inr True, st3)))
            else (Inr False, st1))"
  using assms by (simp add: login_def)

lemma session_key_not_counter: "rate_limit_key ''login'' \<noteq> SESSION_KEY"
  by (simp add: rate_limit_key_def SESSION_KEY_def)

text \<open>
  Claim C4. (1) When the stored counter of \<^verbatim>\<open>login\<close> has reached the maximum and its
  window is still open, \<^verbatim>\<open>login\<close> rejects with the "too many attempts" error whatever
  the password, and leaves the storage as it was. (2) On a working storage, when the
  limiter allows the attempt and the password is the right one, \<^verbatim>\<open>login\<close> returns
  true; the storage then holds no counter and holds, under the session key, the text of
  a session flagged authenticated whose \<^verbatim>\<open>expiresAt\<close> is the timestamp of the clock
  reading plus 24 hours. (3) When the limiter allows the attempt and the password is
  wrong, \<^verbatim>\<open>login\<close> returns false and leaves the storage as the limiter left it: with a
  first counter of one attempt, or with the stored counter plus one.
\<close>

theorem login_limit_then_session:
  "(\<forall>s a r. ls_available st \<and> map_of (ls_items st) (rate_limit_key ''login'') = Some s \<and>
       s \<noteq> [] \<and> JSON_parse rt s = Some (counter (JNum a) (JNum r)) \<and>
       MAX_LOGIN_ATTEMPTS \<le> a \<and> now \<le> r \<longrightarrow>
       (\<forall>password. login rt password token now now' st = (Inl too_many_attempts, st))) \<and>
   (storage_healthy st \<and>
    fst (rateLimit rt ''login'' MAX_LOGIN_ATTEMPTS RATE_LIMIT_WINDOW now st) \<longrightarrow>
      (let st1 = snd (rateLimit rt ''login'' MAX_LOGIN_ATTEMPTS RATE_LIMIT_WINDOW now st);
           session = new_session rt token now';
           st3 = put_item (drop_item st1 (rate_limit_key ''login'')) SESSION_KEY
                   (JSON_stringify rt session)
       in login rt DEMO_PASSWORD token now now' st = (Inr True, st3) \<and>
          map_of (ls_items st3) (rate_limit_key ''login'') = None \<and>
          map_of (ls_items st3) SESSION_KEY = Some (JSON_stringify rt session) \<and>
          jget session ''isAuthenticated'' = Inr (JBool True) \<and>
          jget session ''expiresAt''
            = Inr (JStr (Date_toISOString rt (now' + 24 * 60 * 60 * 1000))))) \<and>
   (\<forall>password. password \<noteq> DEMO_PASSWORD \<and>
       fst (rateLimit rt ''login'' MAX_LOGIN_ATTEMPTS RATE_LIMIT_WINDOW now st) \<longrightarrow>
       login rt password token now now' st
         = (Inr False, snd (rateLimit rt ''login'' MAX_LOGIN_ATTEMPTS RATE_LIMIT_WINDOW now st))) \<and>
   (\<forall>password. password \<noteq> DEMO_PASSWORD \<and> storage_healthy st \<and>
       map_of (ls_items st) (rate_limit_key ''login'') = None \<longrightarrow>
       login rt password token now now' st
         = (Inr False,
            put_item st (rate_limit_key ''login'')
              (JSON_stringify rt (counter (JNum 1) (JNum (now + RATE_LIMIT_WINDOW)))))) \<and>
   (\<forall>password a r. password \<noteq> DEMO_PASSWORD \<and> storage_healthy st \<and>
       map_of (ls_items st) (rate_limit_key ''login'')
         = Some (JSON_stringify rt (counter (JNum a) (JNum r))) \<and>
       roundtrips rt (counter (JNum a) (JNum r)) \<and> a < MAX_LOGIN_ATTEMPTS \<and> now \<le> r \<longrightarrow>
       login rt password token now now' st
         = (Inr False,
            put_item st (rate_limit_key ''login'')
              (JSON_stringify rt (counter (JNum (a + 1)) (JNum r)))))"
proof -
  let ?rl = "rateLimit rt ''login'' MAX_LOGIN_ATTEMPTS RATE_LIMIT_WINDOW now st"
  let ?K = "rate_limit_key ''login''"
  have p1: "\<forall>s a r. ls_available st \<and> map_of (ls_items st) ?K = Some s \<and>
       s \<noteq> [] \<and> JSON_parse rt s = Some (counter (JNum a) (JNum r)) \<and>
       MAX_LOGIN_ATTEMPTS \<le> a \<and> now \<le> r \<longrightarrow>
       (\<forall>password. login rt password token now now' st = (Inl too_many_attempts, st))"
  proof (intro allI impI, elim conjE)
    fix s a r password
    assume "ls_available st" "map_of (ls_items st) ?K = Some s" "s \<noteq> []"
      "JSON_parse rt s = Some (counter (JNum a) (JNum r))" "MAX_LOGIN_ATTEMPTS \<le> a" "now \<le> r"
    then have "?rl = (False, st)" by (rule rateLimit_exhausted)
    then show "login rt password token now now' st = (Inl too_many_attempts, st)"
      by (simp add: login_def)
  qed
  have allowed: "?rl = (True, snd ?rl)" if "fst ?rl"
    using that by (cases ?rl) simp
  have p2: "storage_healthy st \<and> fst ?rl \<longrightarrow>
      (let st1 = snd ?rl;
           session = new_session rt token now';
           st3 = put_item (drop_item st1 ?K) SESSION_KEY (JSON_stringify rt session)
       in login rt DEMO_PASSWORD token now now' st = (Inr True, st3) \<and>
          map_of (ls_items st3) ?K = None \<and>
          map_of (ls_items st3) SESSION_KEY = Some (JSON_stringify rt session) \<and>
          jget session ''isAuthenticated'' = Inr (JBool True) \<and>
          jget session ''expiresAt''
            = Inr (JStr (Date_toISOString rt (now' + 24 * 60 * 60 * 1000))))"
  proof (intro impI, elim conjE)
    assume h: "storage_healthy st" and f: "fst ?rl"
    have h1: "storage_healthy (snd ?rl)" using h by (simp add: rateLimit_healthy)
    then have av: "ls_available (snd ?rl)" by (simp add: storage_healthy_def)
    have "login rt DEMO_PASSWORD token now now' st
            = (Inr True, put_item (drop_item (snd ?rl) ?K) SESSION_KEY
                           (JSON_stringify rt (new_session rt token now')))"
      using login_allowed [OF allowed [OF f], of DEMO_PASSWORD token now'] h1 av
      by (simp add: clearRateLimit_def removeItem_available setItem_healthy)
    then show "let st1 = snd ?rl;
           session = new_session rt token now';
           st3 = put_item (drop_item st1 ?K) SESSION_KEY (JSON_stringify rt session)
       in login rt DEMO_PASSWORD token now now' st = (Inr True, st3) \<and>
          map_of (ls_items st3) ?K = None \<and>
          map_of (ls_items st3) SESSION_KEY = Some (JSON_stringify rt session) \<and>
          jget session ''isAuthenticated'' = Inr (JBool True) \<and>
          jget session ''expiresAt''
            = Inr (JStr (Date_toISOString rt (now' + 24 * 60 * 60 * 1000)))"
      by (simp add: Let_def session_key_not_counter new_session_def SESSION_DURATION_def)
  qed
  have p3: "\<forall>password. password \<noteq> DEMO_PASSWORD \<and> fst ?rl \<longrightarrow>
       login rt password token now now' st = (Inr False, snd ?rl)"
    using login_allowed [OF allowed] by simp
  have p4: "\<forall>password. password \<noteq> DEMO_PASSWORD \<and> storage_healthy st \<and>
       map_of (ls_items st) ?K = None \<longrightarrow>
       login rt password token now now' st
         = (Inr False,
            put_item st ?K
              (JSON_stringify rt (counter (JNum 1) (JNum (now + RATE_LIMIT_WINDOW)))))"
    using login_allowed rateLimit_first by simp
  have p5: "\<forall>password a r. password \<noteq> DEMO_PASSWORD \<and> storage_healthy st \<and>
       map_of (ls_items st) ?K = Some (JSON_stringify rt (counter (JNum a) (JNum r))) \<and>
       roundtrips rt (counter (JNum a) (JNum r)) \<and> a < MAX_LOGIN_ATTEMPTS \<and> now \<le> r \<longrightarrow>
       login rt password token now now' st
         = (Inr False,
            put_item st ?K (JSON_stringify rt (counter (JNum (a + 1)) (JNum r))))"
  proof (intro allI impI, elim conjE)
    fix password a r
    assume a: "password \<noteq> DEMO_PASSWORD" "storage_healthy st"
      "map_of (ls_items st) ?K = Some (JSON_stringify rt (counter (JNum a) (JNum r)))"
      "roundtrips rt (counter (JNum a) (JNum r))" "a < MAX_LOGIN_ATTEMPTS" "now \<le> r"
    have "?rl = (True, put_item st ?K (JSON_stringify rt (counter (JNum (a + 1)) (JNum r))))"
      using rateLimit_stored [OF a(2,3,4), of MAX_LOGIN_ATTEMPTS RATE_LIMIT_WINDOW now] a(5,6)
      by simp
    from login_allowed [OF this] a(1)
    show "login rt password token now now' st
         = (Inr False,
            put_item st ?K (JSON_stringify rt (counter (JNum (a + 1)) (JNum r))))"
      by simp
  qed
  from p1 p2 p3 p4 p5 show ?thesis by (intro conjI)
qed


text \<open>
  Claim C4, at concrete inputs: with five attempts stored and the window open until
  901000, the right and a wrong password at time 6000 both meet the error; on an empty
  storage the right password at time 1000 stores a session expiring at
  \<^verbatim>\<open>1970-01-02T00:00:01.001Z\<close> (minted at 1001) and no counter, and a wrong password
  stores the counter of one attempt.
\<close>

theorem login_limit_then_session_witness:
  "login reference_runtime ''admin123'' ''tok'' 6000 6001
      \<lparr>ls_items = [(''rate_limit_login'',
                     JSON_stringify reference_runtime (counter (JNum 5) (JNum 901000)))],
       ls_available = True, ls_full = False\<rparr>
     = (Inl too_many_attempts,
        \<lparr>ls_items = [(''rate_limit_login'',
                       JSON_stringify reference_runtime (counter (JNum 5) (JNum 901000)))],
         ls_available = True, ls_full = False\<rparr>) \<and>
   login reference_runtime ''guess'' ''tok'' 6000 6001
      \<lparr>ls_items = [(''rate_limit_login'',
                     JSON_stringify reference_runtime (counter (JNum 5) (JNum 901000)))],
       ls_available = True, ls_full = False\<rparr>
     = (Inl too_many_attempts,
        \<lparr>ls_items = [(''rate_limit_login'',
                       JSON_stringify reference_runtime (counter (JNum 5) (JNum 901000)))],
         ls_available = True, ls_full = False\<rparr>) \<and>
   login reference_runtime ''admin123'' ''tok'' 1000 1001 empty_storage
     = (Inr True,
        \<lparr>ls_items = [(''posm-catalogue-session'',
                       JSON_stringify reference_runtime
                         (JObj [(''isAuthenticated'', JBool True), (''sessionToken'', JStr ''tok''),
                                (''expiresAt'', JStr ''1970-01-02T00:00:01.001Z''),
                                (''mode'', JStr ''admin'')]))],
         ls_available = True, ls_full = False\<rparr>) \<and>
   login reference_runtime ''guess'' ''tok'' 1000 1001 empty_storage
     = (Inr False,
        \<lparr>ls_items = [(''rate_limit_login'',
                       JSON_stringify reference_runtime (counter (JNum 1) (JNum 901000)))],
         ls_available = True, ls_full = False\<rparr>)"
proof -
  let ?rt = reference_runtime
  let ?text5 = "JSON_stringify ?rt (counter (JNum 5) (JNum 901000))"
  let ?ex = "\<lparr>ls_items = [(''rate_limit_login'', ?text5)], ls_available = True, ls_full = False\<rparr>"
  have k: "rate_limit_key ''login'' = ''rate_limit_login''" by (simp add: rate_limit_key_def)
  have t: "?text5 \<noteq> []" by code_simp
  have p: "JSON_parse ?rt ?text5 = Some (counter (JNum 5) (JNum 901000))" by code_simp
  have iso: "Date_toISOString ?rt (1001 + 24 * 60 * 60 * 1000) = ''1970-01-02T00:00:01.001Z''"
    by code_simp
  have sess: "new_session ?rt ''tok'' 1001
                = JObj [(''isAuthenticated'', JBool True), (''sessionToken'', JStr ''tok''),
                        (''expiresAt'', JStr ''1970-01-02T00:00:01.001Z''),
                        (''mode'', JStr ''admin'')]"
    using iso by (simp add: new_session_def SESSION_DURATION_def)
  have h: "storage_healthy empty_storage"
    by (simp add: storage_healthy_def empty_storage_def)
  have f: "map_of (ls_items empty_storage) (rate_limit_key ''login'') = None"
    by (simp add: empty_storage_def)
  have first: "rateLimit ?rt ''login'' MAX_LOGIN_ATTEMPTS RATE_LIMIT_WINDOW 1000 empty_storage
                 = (True, put_item empty_storage ''rate_limit_login''
                            (JSON_stringify ?rt (counter (JNum 1) (JNum 901000))))"
    using rateLimit_first [OF h f, of ?rt MAX_LOGIN_ATTEMPTS RATE_LIMIT_WINDOW 1000]
    by (simp add: k RATE_LIMIT_WINDOW_def)
  note thm_ex = login_limit_then_session [where st = ?ex and rt = ?rt and now = 6000
      and now' = 6001 and token = "''tok''", THEN conjunct1, rule_format,
      where s = ?text5 and a = 5 and r = 901000]
  note thm_new = login_limit_then_session [where st = empty_storage and rt = ?rt and now = 1000
      and now' = 1001 and token = "''tok''"]
  have ex: "ls_available ?ex \<and> map_of (ls_items ?ex) (rate_limit_key ''login'') = Some ?text5 \<and>
       ?text5 \<noteq> [] \<and> JSON_parse ?rt ?text5 = Some (counter (JNum 5) (JNum 901000)) \<and>
       MAX_LOGIN_ATTEMPTS \<le> 5 \<and> (6000::rat) \<le> 901000"
    using p t by (simp add: k MAX_LOGIN_ATTEMPTS_def)
  have a: "login ?rt ''admin123'' ''tok'' 6000 6001 ?ex = (Inl too_many_attempts, ?ex)"
    by (rule thm_ex [OF ex])
  have b: "login ?rt ''guess'' ''tok'' 6000 6001 ?ex = (Inl too_many_attempts, ?ex)"
    by (rule thm_ex [OF ex])
  have al: "storage_healthy empty_storage \<and>
            fst (rateLimit ?rt ''login'' MAX_LOGIN_ATTEMPTS RATE_LIMIT_WINDOW 1000 empty_storage)"
    using h first by simp
  from thm_new [THEN conjunct2, THEN conjunct1, rule_format, OF al]
  have c: "login ?rt ''admin123'' ''tok'' 1000 1001 empty_storage
             = (Inr True,
                put_item (drop_item (put_item empty_storage ''rate_limit_login''
                            (JSON_stringify ?rt (counter (JNum 1) (JNum 901000))))
                          ''rate_limit_login'')
                  SESSION_KEY (JSON_stringify ?rt (new_session ?rt ''tok'' 1001)))"
    by (simp add: k first DEMO_PASSWORD_def Let_def)
  have wr: "''guess'' \<noteq> DEMO_PASSWORD \<and> storage_healthy empty_storage \<and>
       map_of (ls_items empty_storage) (rate_limit_key ''login'') = None"
    using h f by (simp add: DEMO_PASSWORD_def)
  from thm_new [THEN conjunct2, THEN conjunct2, THEN conjunct2, THEN conjunct1, rule_format, OF wr]
  have d: "login ?rt ''guess'' ''tok'' 1000 1001 empty_storage
             = (Inr False, put_item empty_storage ''rate_limit_login''
                             (JSON_stringify ?rt (counter (JNum 1) (JNum 901000))))"
    by (simp add: k RATE_LIMIT_WINDOW_def)
  from a b c d show ?thesis
    by (simp add: put_item_def drop_item_def empty_storage_def SESSION_KEY_def sess)
qed

section \<open>Reading the session\<close>

lemma getSession_absent:
  "ls_available st \<Longrightarrow> map_of (ls_items st) SESSION_KEY = None \<Longrightarrow>
   getSession rt now st = (None, st)"
  by (simp add: getSession_def getSession_try_def bind_err_def getItem_def)

lemma getSession_stored:
  assumes "ls_available st" and "map_of (ls_items st) SESSION_KEY = Some s" and "s \<noteq> []"
    and "JSON_parse rt s = Some session" and "jget session ''expiresAt'' = Inr e"
    and "Date_getTime rt e = Some t"
  shows "getSession rt now st =
           (if t < now then (None, drop_item st SESSION_KEY) else (Some session, st))"
  using assms
  by (simp add: getSession_def getSession_try_def bind_err_def getItem_def logout_def
      removeItem_available)

text \<open>
  \<^verbatim>\<open>getSession\<close> in full: absent, with the storage untouched, when the storage refuses
  access, holds no record, holds the empty string or a text that does not parse, or when
  the parsed value is \<^verbatim>\<open>null\<close>; the record itself when its \<^verbatim>\<open>expiresAt\<close> is not a
  date (\<^verbatim>\<open>now > NaN\<close> is false) or is a date not before \<open>now\<close>; absent, with the record
  deleted, when the date is before \<open>now\<close>.
\<close>

lemma getSession_characterised:
  "getSession rt now st =
     (if \<not> ls_available st then (None, st)
      else case map_of (ls_items st) SESSION_KEY of
             None \<Rightarrow> (None, st)
           | Some s \<Rightarrow>
               if s = [] then (None, st)
               else
                 (case JSON_parse rt s of
                    None \<Rightarrow> (None, st)
                  | Some session \<Rightarrow>
                      (case jget session ''expiresAt'' of
                         Inl e \<Rightarrow> (None, st)
                       | Inr e \<Rightarrow>
                           (case Date_getTime rt e of
                              None \<Rightarrow> (Some session, st)
                            | Some t \<Rightarrow>
                                if t < now then (None, drop_item st SESSION_KEY)
                                else (Some session, st)))))"
  by (simp add: getSession_def getSession_try_def bind_err_def getItem_def logout_def
      removeItem_def drop_item_def split: option.splits sum.splits)

text \<open>
  The expiry half of claim C2 holds: for a stored record whose \<^verbatim>\<open>expiresAt\<close> is a date,
  \<^verbatim>\<open>getSession\<close> returns it while \<open>now \<le> expiresAt\<close>; once the expiry has passed it
  returns absent and deletes the stored record, so that a repeated call, at any time,
  returns absent again and changes nothing. \<^verbatim>\<open>isAuthenticated()\<close> returns the flag of
  the record returned, and false when there is none.
\<close>

lemma getSession_expiry:
  assumes "ls_available st" and "map_of (ls_items st) SESSION_KEY = Some s" and "s \<noteq> []"
    and "JSON_parse rt s = Some session" and "jget session ''expiresAt'' = Inr e"
    and "Date_getTime rt e = Some t"
  shows "(now \<le> t \<longrightarrow>
            getSession rt now st = (Some session, st) \<and>
            isAuthenticated rt now st = (jget session ''isAuthenticated'', st)) \<and>
         (t < now \<longrightarrow>
            getSession rt now st = (None, drop_item st SESSION_KEY) \<and>
            map_of (ls_items (drop_item st SESSION_KEY)) SESSION_KEY = None \<and>
            (\<forall>now'. getSession rt now' (drop_item st SESSION_KEY)
                      = (None, drop_item st SESSION_KEY)) \<and>
            isAuthenticated rt now st = (Inr (JBool False), drop_item st SESSION_KEY))"
proof -
  have g: "getSession rt now st =
             (if t < now then (None, drop_item st SESSION_KEY) else (Some session, st))"
    using assms by (rule getSession_stored)
  have av: "ls_available (drop_item st SESSION_KEY)"
    using assms(1) by (simp add: drop_item_def)
  have gone: "map_of (ls_items (drop_item st SESSION_KEY)) SESSION_KEY = None" by simp
  have again: "getSession rt now' (drop_item st SESSION_KEY) = (None, drop_item st SESSION_KEY)"
    for now'
    using av gone by (rule getSession_absent)
  show ?thesis
    using g gone again by (simp add: isAuthenticated_def)
qed

text \<open>
  A record whose \<^verbatim>\<open>expiresAt\<close> is missing or is not a date never expires: it is
  returned at every clock reading.
\<close>

lemma getSession_invalid_date:
  assumes "ls_available st" and "map_of (ls_items st) SESSION_KEY = Some s" and "s \<noteq> []"
    and "JSON_parse rt s = Some session" and "jget session ''expiresAt'' = Inr e"
    and "Date_getTime rt e = None"
  shows "getSession rt now st = (Some session, st)"
  using assms by (simp add: getSession_characterised)

lemma stored_session_parses:
  "JSON_stringify reference_runtime (stored_session True) \<noteq> [] \<and>
   JSON_parse reference_runtime (JSON_stringify reference_runtime (stored_session True))
     = Some (stored_session True) \<and>
   JSON_stringify reference_runtime (stored_session False) \<noteq> [] \<and>
   JSON_parse reference_runtime (JSON_stringify reference_runtime (stored_session False))
     = Some (stored_session False)"
  by code_simp

lemma stored_session_expires:
  "Date_getTime reference_runtime (JStr ''1970-01-02T00:00:01.001Z'') = Some 86401001"
  by code_simp

text \<open>
  At the sample session flagged true: it is returned at its last valid instant 86401001,
  and one millisecond later it is absent, deleted, and absent on the repeated read.
\<close>

lemma getSession_expiry_sample:
  "getSession reference_runtime 86401001 (session_storage True)
     = (Some (stored_session True), session_storage True) \<and>
   isAuthenticated reference_runtime 86401001 (session_storage True)
     = (Inr (JBool True), session_storage True) \<and>
   getSession reference_runtime 86401002 (session_storage True)
     = (None, \<lparr>ls_items = [], ls_available = True, ls_full = False\<rparr>) \<and>
   getSession reference_runtime 86401002 \<lparr>ls_items = [], ls_available = True, ls_full = False\<rparr>
     = (None, \<lparr>ls_items = [], ls_available = True, ls_full = False\<rparr>) \<and>
   isAuthenticated reference_runtime 86401002 (session_storage True)
     = (Inr (JBool False), \<lparr>ls_items = [], ls_available = True, ls_full = False\<rparr>)"
proof -
  let ?st = "session_storage True"
  let ?s = "JSON_stringify reference_runtime (stored_session True)"
  have a: "ls_available ?st" by (simp add: session_storage_def)
  have m: "map_of (ls_items ?st) SESSION_KEY = Some ?s"
    by (simp add: session_storage_def SESSION_KEY_def)
  have n: "?s \<noteq> []" and p: "JSON_parse reference_runtime ?s = Some (stored_session True)"
    using stored_session_parses by simp_all
  have e: "jget (stored_session True) ''expiresAt'' = Inr (JStr ''1970-01-02T00:00:01.001Z'')"
    by (simp add: stored_session_def)
  have f: "jget (stored_session True) ''isAuthenticated'' = Inr (JBool True)"
    by (simp add: stored_session_def)
  have d: "drop_item ?st SESSION_KEY = \<lparr>ls_items = [], ls_available = True, ls_full = False\<rparr>"
    by (simp add: drop_item_def session_storage_def SESSION_KEY_def)
  note inst = getSession_expiry [OF a m n p e stored_session_expires]
  from inst [of 86401001] inst [of 86401002] show ?thesis
    by (simp add: d f)
qed

text \<open>
  Claim C2 does not hold of the code: \<^verbatim>\<open>getSession\<close> never reads the
  \<^verbatim>\<open>isAuthenticated\<close> flag. A stored record whose flag is not \<^verbatim>\<open>true\<close> and whose
  expiry lies ahead is not valid in the specification's sense, yet \<^verbatim>\<open>getSession\<close>
  returns it and leaves it stored, where its doc comment promises
  \<^verbatim>\<open>UserSession if authenticated, null otherwise\<close>.
\<close>

theorem getSession_returns_unauthenticated:
  assumes "ls_available st" and "map_of (ls_items st) SESSION_KEY = Some s" and "s \<noteq> []"
    and "JSON_parse rt s = Some session" and "jget session ''expiresAt'' = Inr e"
    and "Date_getTime rt e = Some t" and "now \<le> t"
    and "jget session ''isAuthenticated'' \<noteq> Inr (JBool True)"
  shows "\<not> spec_session_valid rt session now \<and>
         getSession rt now st = (Some session, st)"
proof -
  from assms(8) have "\<not> spec_session_valid rt session now"
    by (simp add: spec_session_valid_def)
  moreover from getSession_stored [OF assms(1-6), of now] assms(7)
  have "getSession rt now st = (Some session, st)" by simp
  ultimately show ?thesis by simp
qed

text \<open>
  Claim C2, at the failing input: the storage holds the sample session with the flag
  \<^verbatim>\<open>false\<close>, which expires at 86401001; at time 1000 \<^verbatim>\<open>getSession\<close> returns the
  record and leaves the storage as it was.
\<close>

theorem getSession_returns_unauthenticated_witness:
  "\<not> spec_session_valid reference_runtime (stored_session False) 1000 \<and>
   getSession reference_runtime 1000 (session_storage False)
     = (Some (stored_session False), session_storage False)"
proof -
  let ?st = "session_storage False"
  let ?s = "JSON_stringify reference_runtime (stored_session False)"
  have a: "ls_available ?st" by (simp add: session_storage_def)
  have m: "map_of (ls_items ?st) SESSION_KEY = Some ?s"
    by (simp add: session_storage_def SESSION_KEY_def)
  have n: "?s \<noteq> []" and p: "JSON_parse reference_runtime ?s = Some (stored_session False)"
    using stored_session_parses by simp_all
  have e: "jget (stored_session False) ''expiresAt'' = Inr (JStr ''1970-01-02T00:00:01.001Z'')"
    by (simp add: stored_session_def)
  have t: "(1000::rat) \<le> 86401001" by simp
  have f: "jget (stored_session False) ''isAuthenticated'' \<noteq> Inr (JBool True)"
    by (simp add: stored_session_def)
  show ?thesis
    by (rule getSession_returns_unauthenticated [OF a m n p e stored_session_expires t f])
qed

section \<open>Drafts: saving, loading, clearing\<close>

lemma draft_keys_differ: "draft_timestamp_key modelId \<noteq> draft_key modelId"
  by (simp add: draft_timestamp_key_def TIMESTAMP_SUFFIX_def)

lemma saveDraft_healthy:
  "storage_healthy st \<Longrightarrow>
   saveDraft rt modelId draft now st =
     (Inr (), put_item (put_item st (draft_key modelId) (JSON_stringify rt draft))
                (draft_timestamp_key modelId) (Date_toISOString rt now))"
  by (simp add: saveDraft_def setItem_healthy)

lemma loadDraft_stored:
  "ls_available st \<Longrightarrow> map_of (ls_items st) (draft_key modelId) = Some s \<Longrightarrow> s \<noteq> [] \<Longrightarrow>
   loadDraft rt modelId st =
     (case JSON_parse rt s of None \<Rightarrow> None | Some v \<Rightarrow> if v = JNull then None else Some v)"
  by (simp add: loadDraft_def loadDraft_try_def bind_err_def getItem_def split: option.splits)

lemma loadDraft_after_clearDraft: "loadDraft rt modelId (snd (clearDraft modelId st)) = None"
proof (cases "ls_available st")
  case True
  then have "clearDraft modelId st
               = (Inr (), drop_item (drop_item st (draft_key modelId)) (draft_timestamp_key modelId))"
    by (simp add: clearDraft_def removeItem_def drop_item_def)
  then show ?thesis
    using True
    by (simp add: loadDraft_def loadDraft_try_def bind_err_def getItem_def drop_item_def
        delete_conv')
next
  case False
  then show ?thesis
    by (simp add: clearDraft_def removeItem_def loadDraft_def loadDraft_try_def bind_err_def
        getItem_def)
qed

lemma loadDraft_corrupt:
  "map_of (ls_items st) (draft_key modelId) = Some s \<Longrightarrow> JSON_parse rt s = None \<Longrightarrow>
   loadDraft rt modelId st = None"
  by (simp add: loadDraft_def loadDraft_try_def bind_err_def getItem_def)

lemma saveDraft_succeeds:
  "fst (saveDraft rt modelId draft now st) = Inr () \<Longrightarrow> storage_healthy st"
  by (auto simp: saveDraft_def setItem_def storage_healthy_def split: if_splits sum.splits)

lemma loadDraft_after_saveDraft:
  assumes "fst (saveDraft rt modelId draft now st) = Inr ()"
  shows "nullable (loadDraft rt modelId (snd (saveDraft rt modelId draft now st)))
           = (if JSON_stringify rt draft = [] then JNull
              else nullable (JSON_parse rt (JSON_stringify rt draft)))"
proof -
  let ?st' = "put_item (put_item st (draft_key modelId) (JSON_stringify rt draft))
                (draft_timestamp_key modelId) (Date_toISOString rt now)"
  from assms have h: "storage_healthy st" by (rule saveDraft_succeeds)
  have av: "ls_available ?st'" using h by (simp add: storage_healthy_def put_item_def)
  have m: "map_of (ls_items ?st') (draft_key modelId) = Some (JSON_stringify rt draft)"
    using draft_keys_differ [of modelId] by simp
  have "nullable (loadDraft rt modelId ?st')
          = (if JSON_stringify rt draft = [] then JNull
             else nullable (JSON_parse rt (JSON_stringify rt draft)))"
    using av m
    by (simp add: loadDraft_def loadDraft_try_def bind_err_def getItem_def nullable_def
        split: option.splits)
  then show ?thesis by (simp add: saveDraft_healthy [OF h])
qed

text \<open>
  Claim C7, as the specification words it, fails for a draft whose marker position is
  \<^verbatim>\<open>NaN\<close>: \<^verbatim>\<open>JSON.stringify\<close> writes \<^verbatim>\<open>NaN\<close> as \<^verbatim>\<open>null\<close>, so the draft that
  \<^verbatim>\<open>loadDraft\<close> returns after a successful \<^verbatim>\<open>saveDraft\<close> has \<^verbatim>\<open>x: null\<close> and is
  not the draft saved.
\<close>

theorem draft_roundtrip_NaN_counterexample:
  "fst (saveDraft reference_runtime ''m1'' (sample_model [sample_marker ''p1'' JNaN (JNum 50)])
          1000 empty_storage) = Inr () \<and>
   loadDraft reference_runtime ''m1''
     (snd (saveDraft reference_runtime ''m1'' (sample_model [sample_marker ''p1'' JNaN (JNum 50)])
             1000 empty_storage))
     = Some (sample_model [sample_marker ''p1'' JNull (JNum 50)]) \<and>
   sample_model [sample_marker ''p1'' JNull (JNum 50)]
     \<noteq> sample_model [sample_marker ''p1'' JNaN (JNum 50)]"
  by code_simp

text \<open>
  Claim C7, amended: on a working storage \<^verbatim>\<open>saveDraft\<close> returns normally, and for every
  model id and every draft value, when \<^verbatim>\<open>saveDraft(modelId, draft)\<close> has returned
  normally, \<^verbatim>\<open>loadDraft(modelId)\<close> returns what \<^verbatim>\<open>JSON.parse(JSON.stringify(draft))\<close>
  gives: a value equal to the saved draft for every draft that JSON serialization
  preserves. After \<^verbatim>\<open>clearDraft\<close>, \<^verbatim>\<open>loadDraft\<close> returns absent on every storage; and
  when the stored text of the key does not parse, \<^verbatim>\<open>loadDraft\<close> returns absent.
  \<^verbatim>\<open>loadDraft\<close> is a total function into an optional value: it has no exception path.
\<close>

theorem draft_roundtrip:
  "(storage_healthy st \<longrightarrow> fst (saveDraft rt modelId draft now st) = Inr ()) \<and>
   (fst (saveDraft rt modelId draft now st) = Inr () \<longrightarrow>
      nullable (loadDraft rt modelId (snd (saveDraft rt modelId draft now st)))
        = (if JSON_stringify rt draft = [] then JNull
           else nullable (JSON_parse rt (JSON_stringify rt draft))) \<and>
      (roundtrips rt draft \<longrightarrow>
         nullable (loadDraft rt modelId (snd (saveDraft rt modelId draft now st))) = draft) \<and>
      (roundtrips rt draft \<and> draft \<noteq> JNull \<longrightarrow>
         loadDraft rt modelId (snd (saveDraft rt modelId draft now st)) = Some draft)) \<and>
   loadDraft rt modelId (snd (clearDraft modelId st)) = None \<and>
   (\<forall>s. map_of (ls_items st) (draft_key modelId) = Some s \<and> JSON_parse rt s = None \<longrightarrow>
      loadDraft rt modelId st = None)"
proof -
  let ?loaded = "loadDraft rt modelId (snd (saveDraft rt modelId draft now st))"
  have p1: "storage_healthy st \<longrightarrow> fst (saveDraft rt modelId draft now st) = Inr ()"
    by (simp add: saveDraft_healthy)
  have a: "nullable ?loaded
             = (if JSON_stringify rt draft = [] then JNull
                else nullable (JSON_parse rt (JSON_stringify rt draft)))"
    if "fst (saveDraft rt modelId draft now st) = Inr ()"
    using that by (rule loadDraft_after_saveDraft)
  have b: "nullable ?loaded = draft"
    if "fst (saveDraft rt modelId draft now st) = Inr ()" "roundtrips rt draft"
    using a [OF that(1)] that(2) by (simp add: roundtrips_def nullable_def)
  have c: "?loaded = Some draft"
    if "fst (saveDraft rt modelId draft now st) = Inr ()" "roundtrips rt draft" "draft \<noteq> JNull"
  proof -
    from that(1) have h: "storage_healthy st" by (rule saveDraft_succeeds)
    let ?st' = "put_item (put_item st (draft_key modelId) (JSON_stringify rt draft))
                  (draft_timestamp_key modelId) (Date_toISOString rt now)"
    have av: "ls_available ?st'" using h by (simp add: storage_healthy_def put_item_def)
    have m: "map_of (ls_items ?st') (draft_key modelId) = Some (JSON_stringify rt draft)"
      using draft_keys_differ [of modelId] by simp
    from that(2) have ne: "JSON_stringify rt draft \<noteq> []"
      and p: "JSON_parse rt (JSON_stringify rt draft) = Some draft"
      by (simp_all add: roundtrips_def)
    from loadDraft_stored [OF av m ne, of rt] p that(3)
    have "loadDraft rt modelId ?st' = Some draft" by simp
    then show ?thesis by (simp add: saveDraft_healthy [OF h])
  qed
  have p2: "fst (saveDraft rt modelId draft now st) = Inr () \<longrightarrow>
      nullable ?loaded
        = (if JSON_stringify rt draft = [] then JNull
           else nullable (JSON_parse rt (JSON_stringify rt draft))) \<and>
      (roundtrips rt draft \<longrightarrow> nullable ?loaded = draft) \<and>
      (roundtrips rt draft \<and> draft \<noteq> JNull \<longrightarrow> ?loaded = Some draft)"
    using a b c by simp
  have p3: "loadDraft rt modelId (snd (clearDraft modelId st)) = None"
    by (rule loadDraft_after_clearDraft)
  have p4: "\<forall>s. map_of (ls_items st) (draft_key modelId) = Some s \<and> JSON_parse rt s = None \<longrightarrow>
      loadDraft rt modelId st = None"
    using loadDraft_corrupt by blast
  from p1 p2 p3 p4 show ?thesis by (intro conjI)
qed

lemma sample_model_roundtrips:
  "roundtrips reference_runtime
     (sample_model [sample_marker ''p1'' (JNum (25 / 2)) (JNum 50),
                    sample_marker ''p2'' (JNum 0) (JNum 100)])"
  by code_simp

text \<open>
  Claim C7, at concrete inputs: the sample model with two markers, saved as the draft of
  \<^verbatim>\<open>m1\<close> on an empty storage, is loaded back unchanged; after \<^verbatim>\<open>clearDraft\<close> it is
  absent; and a storage whose draft text is the broken \<^verbatim>\<open>{id:\<close> loads as absent.
\<close>

theorem draft_roundtrip_witness:
  "fst (saveDraft reference_runtime ''m1''
          (sample_model [sample_marker ''p1'' (JNum (25 / 2)) (JNum 50),
                         sample_marker ''p2'' (JNum 0) (JNum 100)]) 1000 empty_storage) = Inr () \<and>
   loadDraft reference_runtime ''m1''
     (snd (saveDraft reference_runtime ''m1''
             (sample_model [sample_marker ''p1'' (JNum (25 / 2)) (JNum 50),
                            sample_marker ''p2'' (JNum 0) (JNum 100)]) 1000 empty_storage))
     = Some (sample_model [sample_marker ''p1'' (JNum (25 / 2)) (JNum 50),
                           sample_marker ''p2'' (JNum 0) (JNum 100)]) \<and>
   loadDraft reference_runtime ''m1''
     (snd (clearDraft ''m1''
        (snd (saveDraft reference_runtime ''m1''
                (sample_model [sample_marker ''p1'' (JNum (25 / 2)) (JNum 50),
                               sample_marker ''p2'' (JNum 0) (JNum 100)]) 1000 empty_storage))))
     = None \<and>
   loadDraft reference_runtime ''m1''
     \<lparr>ls_items = [(''posm-draft-m1'', ''{id:'')], ls_available = True, ls_full = False\<rparr> = None"
proof -
  let ?d = "sample_model [sample_marker ''p1'' (JNum (25 / 2)) (JNum 50),
                          sample_marker ''p2'' (JNum 0) (JNum 100)]"
  let ?bad = "\<lparr>ls_items = [(''posm-draft-m1'', ''{id:'')], ls_available = True, ls_full = False\<rparr>"
  note inst = draft_roundtrip [of empty_storage reference_runtime "''m1''" ?d 1000]
  have h: "storage_healthy empty_storage"
    by (simp add: storage_healthy_def empty_storage_def)
  from inst [THEN conjunct1, rule_format, OF h]
  have s: "fst (saveDraft reference_runtime ''m1'' ?d 1000 empty_storage) = Inr ()" .
  have r: "roundtrips reference_runtime ?d \<and> ?d \<noteq> JNull"
    using sample_model_roundtrips by (simp add: sample_model_def)
  from inst [THEN conjunct2, THEN conjunct1, rule_format, OF s,
      THEN conjunct2, THEN conjunct2, rule_format, OF r]
  have l: "loadDraft reference_runtime ''m1''
             (snd (saveDraft reference_runtime ''m1'' ?d 1000 empty_storage)) = Some ?d" .
  have c: "map_of (ls_items ?bad) (draft_key ''m1'') = Some ''{id:'' \<and>
           JSON_parse reference_runtime ''{id:'' = None"
    by code_simp
  from s l
    draft_roundtrip [of "snd (saveDraft reference_runtime ''m1'' ?d 1000 empty_storage)"
      reference_runtime "''m1''" ?d 1000, THEN conjunct2, THEN conjunct2, THEN conjunct1]
    draft_roundtrip [of ?bad reference_runtime "''m1''" ?d 1000,
      THEN conjunct2, THEN conjunct2, THEN conjunct2, rule_format, OF c]
  show ?thesis by (intro conjI) simp_all
qed


section \<open>Drafts: the enumeration of ids\<close>

lemma collect_draft_ids_filter:
  "collect_draft_ids keys acc =
     acc @ map (\<lambda>k. substring k (length DRAFT_KEY_PREFIX))
             (filter (\<lambda>k. k \<noteq> [] \<and> startsWith k DRAFT_KEY_PREFIX \<and>
                          \<not> endsWith k TIMESTAMP_SUFFIX) keys)"
  by (induction keys arbitrary: acc) simp_all

lemma draft_key_startsWith: "startsWith (draft_key modelId) DRAFT_KEY_PREFIX"
  by (simp add: startsWith_def draft_key_def)

lemma draft_key_substring: "substring (draft_key modelId) (length DRAFT_KEY_PREFIX) = modelId"
  by (simp add: substring_def draft_key_def)

lemma startsWith_draft_key:
  "startsWith k DRAFT_KEY_PREFIX \<Longrightarrow> draft_key (substring k (length DRAFT_KEY_PREFIX)) = k"
  unfolding startsWith_def draft_key_def substring_def
  by (metis append_take_drop_id)

text \<open>
  What \<^verbatim>\<open>getAllDraftIds\<close> returns: the ids whose data key is stored and does not end
  with the timestamp suffix.
\<close>

lemma getAllDraftIds_exactly:
  assumes "getAllDraftIds st = Inr ids"
  shows "modelId \<in> set ids \<longleftrightarrow>
           draft_key modelId \<in> fst ` set (ls_items st) \<and>
           \<not> endsWith (draft_key modelId) TIMESTAMP_SUFFIX"
proof -
  from assms have ids: "ids = collect_draft_ids (map fst (ls_items st)) []"
    by (auto simp: getAllDraftIds_def storage_keys_def bind_err_def split: if_splits)
  have ne: "draft_key modelId \<noteq> []" by (simp add: draft_key_def DRAFT_KEY_PREFIX_def)
  show ?thesis
  proof
    assume "modelId \<in> set ids"
    then obtain k where k: "k \<in> fst ` set (ls_items st)" "startsWith k DRAFT_KEY_PREFIX"
        "\<not> endsWith k TIMESTAMP_SUFFIX" "modelId = substring k (length DRAFT_KEY_PREFIX)"
      unfolding ids collect_draft_ids_filter by auto
    from startsWith_draft_key [OF k(2)] k(4) have "draft_key modelId = k" by simp
    with k show "draft_key modelId \<in> fst ` set (ls_items st) \<and>
                 \<not> endsWith (draft_key modelId) TIMESTAMP_SUFFIX" by simp
  next
    assume a: "draft_key modelId \<in> fst ` set (ls_items st) \<and>
               \<not> endsWith (draft_key modelId) TIMESTAMP_SUFFIX"
    have "substring (draft_key modelId) (length DRAFT_KEY_PREFIX) \<in> set ids"
      unfolding ids collect_draft_ids_filter
      using a ne draft_key_startsWith [of modelId] by force
    then show "modelId \<in> set ids" by (simp add: draft_key_substring)
  qed
qed

lemma endsWith_append: "endsWith (xs @ s) s"
  by (simp add: endsWith_def)

text \<open>
  Claim C8 does not hold of the code: for a model id that itself ends with
  \<^verbatim>\<open>-timestamp\<close>, \<^verbatim>\<open>saveDraft\<close> on an empty storage succeeds and \<^verbatim>\<open>hasDraft\<close> finds
  the draft, but the data key ends with the timestamp suffix, so \<^verbatim>\<open>getAllDraftIds\<close>
  skips it with the companion key and returns the empty list.
\<close>

theorem getAllDraftIds_misses_timestamp_ids:
  "fst (saveDraft rt (m @ ''-timestamp'') draft now empty_storage) = Inr () \<and>
   hasDraft (m @ ''-timestamp'')
     (snd (saveDraft rt (m @ ''-timestamp'') draft now empty_storage)) = Inr True \<and>
   getAllDraftIds (snd (saveDraft rt (m @ ''-timestamp'') draft now empty_storage)) = Inr []"
proof -
  let ?id = "m @ ''-timestamp''"
  let ?st = "put_item (put_item empty_storage (draft_key ?id) (JSON_stringify rt draft))
               (draft_timestamp_key ?id) (Date_toISOString rt now)"
  have h: "storage_healthy empty_storage"
    by (simp add: storage_healthy_def empty_storage_def)
  have s: "saveDraft rt ?id draft now empty_storage = (Inr (), ?st)"
    by (rule saveDraft_healthy [OF h])
  have items: "ls_items ?st = [(draft_key ?id, JSON_stringify rt draft),
                               (draft_timestamp_key ?id, Date_toISOString rt now)]"
    using draft_keys_differ [of ?id] by (simp add: put_item_def empty_storage_def)
  have av: "ls_available ?st" by (simp add: put_item_def empty_storage_def)
  have e1: "endsWith (draft_key ?id) TIMESTAMP_SUFFIX"
    using endsWith_append [of "DRAFT_KEY_PREFIX @ m" "''-timestamp''"]
    by (simp add: draft_key_def TIMESTAMP_SUFFIX_def)
  have e2: "endsWith (draft_timestamp_key ?id) TIMESTAMP_SUFFIX"
    by (simp add: draft_timestamp_key_def endsWith_append)
  have has: "hasDraft ?id ?st = Inr True"
    using av by (simp add: hasDraft_def getItem_def bind_err_def items)
  have ids: "getAllDraftIds ?st = Inr []"
    using av e1 e2 by (simp add: getAllDraftIds_def storage_keys_def bind_err_def items)
  show ?thesis by (simp add: s has ids)
qed


section \<open>The model validator at sample models\<close>

lemmas validate_defs =
  validateModel_def validateImage_def validateMarker_def position_invalid_def bind_err_def
  sample_model_def sample_marker_def js_lt_def js_le_def ToNumber_def Let_def
  nat_to_string.simps

text \<open>
  A well-formed model is valid; a marker at \<open>x = 150\<close> is reported by its field; and
  several violations are all reported, in the order of the checks.
\<close>

lemma validateModel_accepts_sample:
  "validateModel rt (sample_model [sample_marker ''p1'' (JNum (25 / 2)) (JNum 50),
                                   sample_marker ''p2'' (JNum 0) (JNum 100)])
     = Inr (Valid (sample_model [sample_marker ''p1'' (JNum (25 / 2)) (JNum 50),
                                 sample_marker ''p2'' (JNum 0) (JNum 100)]))"
  by (simp add: validate_defs)

lemma validateModel_rejects_x_150:
  "validateModel rt (sample_model [sample_marker ''p1'' (JNum 150) (JNum 50)])
     = Inr (Invalid [\<lparr>field = ''posmMarkers[0].position.x'',
                      message = ''X coordinate must be between 0 and 100'',
                      err_value = Some (JNum 150)\<rparr>])"
  by (simp add: validate_defs)

lemma validateModel_accumulates:
  "validateModel rt (JObj [(''posmMarkers'',
       JArr [sample_marker ''p1'' (JNum 150) (JNum (- 1)), JObj [(''position'', JStr ''top'')]])])
     = Inr (Invalid
         [\<lparr>field = ''id'', message = ''ID is required and must be a string'',
           err_value = Some JUndefined\<rparr>,
          \<lparr>field = ''name'', message = ''Name is required and must be a string'',
           err_value = Some JUndefined\<rparr>,
          \<lparr>field = ''image'', message = ''Image is required'', err_value = None\<rparr>,
          \<lparr>field = ''posmMarkers[0].position.x'',
           message = ''X coordinate must be between 0 and 100'', err_value = Some (JNum 150)\<rparr>,
          \<lparr>field = ''posmMarkers[0].position.y'',
           message = ''Y coordinate must be between 0 and 100'', err_value = Some (JNum (- 1))\<rparr>,
          \<lparr>field = ''posmMarkers[1].position'', message = ''Invalid position coordinates'',
           err_value = None\<rparr>])"
  by (simp add: validate_defs)

text \<open>
  When every marker carries a position, no exception leaves \<^verbatim>\<open>validateModel\<close>: it
  returns a result for every candidate.
\<close>

lemma jget_defined:
  "v \<noteq> JUndefined \<Longrightarrow> v \<noteq> JNull \<Longrightarrow> \<exists>x. jget v p = Inr x"
  by (cases v) simp_all

lemma validateMarker_returns:
  assumes "has_position marker"
  shows "\<exists>es. validateMarker rt marker index errors = Inr es"
proof -
  from assms obtain p where p: "jget marker ''position'' = Inr p" "p \<noteq> JUndefined" "p \<noteq> JNull"
    by (auto simp: has_position_def split: sum.splits)
  from jget_defined [OF p(2,3)] obtain x y where xy: "jget p ''x'' = Inr x" "jget p ''y'' = Inr y"
    by metis
  show ?thesis
    by (simp add: validateMarker_def position_invalid_def bind_err_def p xy Let_def)
qed

lemma validateMarkers_return:
  "list_all has_position markers \<Longrightarrow>
   \<exists>es. validateMarkers rt markers index errors = Inr es"
proof (induction markers arbitrary: index errors)
  case Nil
  then show ?case by simp
next
  case (Cons marker markers)
  then have "has_position marker" and rest: "list_all has_position markers" by simp_all
  from validateMarker_returns [OF this(1)]
  obtain es where "validateMarker rt marker index errors = Inr es" by blast
  with Cons.IH [OF rest, of "Suc index" es] show ?case by simp
qed

lemma bind_err_returns:
  assumes "\<exists>x. m = Inr x" and "\<And>x. m = Inr x \<Longrightarrow> \<exists>y. f x = Inr y"
  shows "\<exists>y. bind_err m f = Inr y"
  using assms by (auto simp: bind_err_def)

lemma validateImage_returns:
  assumes "truthy img"
  shows "\<exists>es. validateImage rt img errors = Inr es"
proof -
  from assms have "img \<noteq> JUndefined" "img \<noteq> JNull" by auto
  from jget_defined [OF this] obtain u w h where
    "jget img ''url'' = Inr u" "jget img ''width'' = Inr w" "jget img ''height'' = Inr h"
    by metis
  then show ?thesis by (simp add: validateImage_def bind_err_def Let_def)
qed

lemma validateModel_returns:
  assumes "\<And>markers. jget model ''posmMarkers'' = Inr (JArr markers) \<Longrightarrow>
             list_all has_position markers"
  shows "\<exists>r. validateModel rt model = Inr r"
proof (cases "typeof model \<noteq> T_object \<or> model = JNull")
  case True
  then show ?thesis by (simp add: validateModel_def)
next
  case False
  then have m: "model \<noteq> JUndefined" "model \<noteq> JNull" by auto
  show ?thesis
    unfolding validateModel_def if_not_P [OF False]
    apply (intro bind_err_returns jget_defined m)
    apply (unfold Let_def)
    apply (intro bind_err_returns)
    subgoal for mid mname img pm
      using validateImage_returns [of img rt] by (cases "truthy img") auto
    subgoal for mid mname img pm e3
      using validateMarkers_return [OF assms, of _ rt 0 e3] by (cases pm) auto
    subgoal by simp
    done
qed

text \<open>
  Claim C1 does not hold of the code: for a marker with no \<^verbatim>\<open>position\<close>, or with
  \<^verbatim>\<open>position: null\<close>, the callback records the invalid position and then reads
  \<^verbatim>\<open>marker.position.x\<close> all the same; the \<^verbatim>\<open>TypeError\<close> of that read leaves
  \<^verbatim>\<open>validateModel\<close>, and no error list is returned.
\<close>

theorem validateModel_throws_without_position:
  "validateModel rt (sample_model [JObj [(''id'', JStr ''p1'')]]) = Inl TypeError \<and>
   validateModel rt (sample_model [JObj [(''id'', JStr ''p1''), (''position'', JNull)]])
     = Inl TypeError"
  by (simp add: validate_defs)

text \<open>
  Claim C1, with the concrete runtime: the same two models, validated by a runtime that
  is fully defined, end in the \<^verbatim>\<open>TypeError\<close>.
\<close>

theorem validateModel_throws_without_position_witness:
  "validateModel reference_runtime (sample_model [JObj [(''id'', JStr ''p1'')]]) = Inl TypeError \<and>
   validateModel reference_runtime
     (sample_model [JObj [(''id'', JStr ''p1''), (''position'', JNull)]]) = Inl TypeError"
  by (rule validateModel_throws_without_position [of reference_runtime])

end
